theory Spec2Isabelle
  imports Main "HOL-Library.Sublist"
begin

section \<open>Strings of the source language\<close>

text \<open>
  A JavaScript string is a sequence of UTF-16 code units. It is modelled as a HOL
  \<open>string\<close>; a \<open>char\<close> stands for a code unit in the range 0..255 (ASCII and Latin-1).
  Code units above 255 have no counterpart in the model.
\<close>

abbreviation LF :: char where "LF \<equiv> CHR 0x0A"
abbreviation CR :: char where "CR \<equiv> CHR 0x0D"
abbreviation TAB :: char where "TAB \<equiv> CHR 0x09"
abbreviation DQ :: char where "DQ \<equiv> CHR 0x22"
abbreviation COMMA :: char where "COMMA \<equiv> CHR '',''"

text \<open>
  \<open>String.prototype.trim\<close> strips white space and line terminators from both ends. In the
  modelled range these are TAB, LF, VT, FF, CR, SPACE and NBSP (0xA0).
\<close>

definition js_whitespace :: "char \<Rightarrow> bool" where
  "js_whitespace c = (c = TAB \<or> c = LF \<or> c = CHR 0x0B \<or> c = CHR 0x0C \<or> c = CR
     \<or> c = CHR '' '' \<or> c = CHR 0xA0)"

definition js_trim :: "string \<Rightarrow> string" where
  "js_trim s = rev (dropWhile js_whitespace (rev (dropWhile js_whitespace s)))"

text \<open>
  \<open>Array.prototype.join\<close>: the elements separated by \<open>sep\<close>; the empty array gives
  the empty string.
\<close>

fun js_join :: "string \<Rightarrow> string list \<Rightarrow> string" where
  "js_join sep [] = []"
| "js_join sep [x] = x"
| "js_join sep (x # y # ys) = x @ sep @ js_join sep (y # ys)"

text \<open>
  \<open>String.prototype.split\<close> with a string separator. With a non-empty separator the
  string is cut at the leftmost non-overlapping occurrences of the separator, and there is
  always at least one piece. With the empty separator the result is the list of the
  single code units.
\<close>

function split_on :: "string \<Rightarrow> string \<Rightarrow> string list" where
  "split_on d s =
     (if s = [] then [[]]
      else if d \<noteq> [] \<and> prefix d s then [] # split_on d (drop (length d) s)
      else (case split_on d (tl s) of
              [] \<Rightarrow> [[hd s]]
            | p # ps \<Rightarrow> (hd s # p) # ps))"
  by pat_completeness auto
termination
  by (relation "measure (\<lambda>(d, s). length s)") (auto simp: prefix_def)

declare split_on.simps [simp del]

definition js_split :: "string \<Rightarrow> string \<Rightarrow> string list" where
  "js_split s d = (if d = [] then map (\<lambda>c. [c]) s else split_on d s)"

section \<open>Delimiters and content splitting (utils.js)\<close>

text \<open>\<open>CONSTANTS.DELIMITERS\<close> of types.js, as an association list.\<close>

definition DELIMITERS :: "(string \<times> string) list" where
  "DELIMITERS = [(''newline'', [LF]), (''comma'', '',''), (''semicolon'', '';''), (''tab'', [TAB])]"

text \<open>
  \<open>getDelimiter\<close>: \<open>a || b\<close> on strings is \<open>b\<close> exactly when \<open>a\<close> is empty or
  undefined. The lookup is in the table's own keys: the delimiter type ranges over the
  names of \<open>DelimiterType\<close> and over names that no object has. At a name that every
  object inherits (\<open>constructor\<close>, \<open>toString\<close>, \<open>__proto__\<close>, ...) the source's
  index \<open>CONSTANTS.DELIMITERS[delimiterType]\<close> answers a function or an object, which
  is not a delimiter text; such names are outside this definition, which answers the
  line feed there.
\<close>

definition getDelimiter :: "string \<Rightarrow> string \<Rightarrow> string" where
  "getDelimiter delimiterType customDelimiter =
     (if delimiterType = ''custom''
      then (if customDelimiter = [] then [LF] else customDelimiter)
      else (case map_of DELIMITERS delimiterType of
              None \<Rightarrow> [LF]
            | Some d \<Rightarrow> (if d = [] then [LF] else d)))"

definition parseContent :: "string \<Rightarrow> string \<Rightarrow> string list" where
  "parseContent content delimiter =
     filter (\<lambda>item. length item > 0) (map js_trim (js_split content delimiter))"

section \<open>Barcode format validation (utils.js)\<close>

text \<open>
  The user-visible messages of the source are Japanese texts; each is represented by a
  constructor. \<open>MsgText\<close> carries the message of an exception thrown by a library.
  \<^item> \<open>MsgNonAscii\<close>: CODE128 supports ASCII characters only
  \<^item> \<open>MsgDigitsOnly\<close>: enter digits only
  \<^item> \<open>MsgEanLength\<close>: enter 12 or 13 digits
  \<^item> \<open>MsgCode39\<close>: CODE39 supports capital letters, digits and the symbols -. $/+% only
  \<^item> \<open>MsgItfEven\<close>: ITF supports an even number of digits only
  \<^item> \<open>MsgUnknownFormat\<close>: unknown barcode format
  \<^item> \<open>MsgQrFailed\<close>: QR code generation failed
  \<^item> \<open>MsgBarcodeFailed\<close>: barcode generation failed
  \<^item> \<open>MsgBarcodeLibMissing\<close>: the barcode library is not loaded
\<close>

datatype message =
    MsgNonAscii | MsgDigitsOnly | MsgEanLength | MsgCode39 | MsgItfEven | MsgUnknownFormat
  | MsgQrFailed | MsgBarcodeFailed | MsgBarcodeLibMissing | MsgText string

record validation =
  valid :: bool
  error :: "message option"

text \<open>\<open>isAscii\<close>: the regular expression \<open>/^[\x20-\x7E]*$/\<close>.\<close>

definition isAscii :: "string \<Rightarrow> bool" where
  "isAscii str = list_all (\<lambda>c. 0x20 \<le> (of_char c :: nat) \<and> (of_char c :: nat) \<le> 0x7E) str"

text \<open>\<open>isNumeric\<close>: \<open>/^\d+$/\<close>, one or more of the digits 0 to 9.\<close>

definition is_digit :: "char \<Rightarrow> bool" where
  "is_digit c = (0x30 \<le> (of_char c :: nat) \<and> (of_char c :: nat) \<le> 0x39)"

definition isNumeric :: "string \<Rightarrow> bool" where
  "isNumeric str = (str \<noteq> [] \<and> list_all is_digit str)"

text \<open>\<open>isCode39Compatible\<close>: \<open>/^[A-Z0-9\-. $/+%]*$/\<close>.\<close>

definition code39_char :: "char \<Rightarrow> bool" where
  "code39_char c =
     ((0x41 \<le> (of_char c :: nat) \<and> (of_char c :: nat) \<le> 0x5A) \<or> is_digit c
      \<or> c = CHR ''-'' \<or> c = CHR ''.'' \<or> c = CHR '' '' \<or> c = CHR ''$''
      \<or> c = CHR ''/'' \<or> c = CHR ''+'' \<or> c = CHR ''%'')"

definition isCode39Compatible :: "string \<Rightarrow> bool" where
  "isCode39Compatible str = list_all code39_char str"

text \<open>
  \<open>String.prototype.toUpperCase\<close> on the modelled range: a to z and the Latin-1 letters
  0xE0 to 0xFE (but the division sign 0xF7) move down by 0x20, and the sharp s 0xDF
  becomes \<open>SS\<close>. The upper-case forms of 0xB5 and 0xFF lie above 255; these two are
  left as they are, which like their upper-case forms are outside every character class
  the source tests.
\<close>

definition upper_char :: "char \<Rightarrow> string" where
  "upper_char c =
     (let n = (of_char c :: nat) in
      if 0x61 \<le> n \<and> n \<le> 0x7A then [char_of (n - 0x20)]
      else if n = 0xDF then ''SS''
      else if 0xE0 \<le> n \<and> n \<le> 0xFE \<and> n \<noteq> 0xF7 then [char_of (n - 0x20)]
      else [c])"

definition toUpperCase :: "string \<Rightarrow> string" where
  "toUpperCase s = concat (map upper_char s)"

definition getQRSize :: "nat \<Rightarrow> string" where
  "getQRSize moduleCount = (if moduleCount \<le> 33 then ''small'' else ''medium'')"

definition getBarcodeSize :: "nat \<Rightarrow> string" where
  "getBarcodeSize textLength = (if textLength \<le> 16 then ''small'' else ''medium'')"

definition invalid :: "message \<Rightarrow> validation" where
  "invalid m = \<lparr>valid = False, error = Some m\<rparr>"

definition validateBarcodeFormat :: "string \<Rightarrow> string \<Rightarrow> validation" where
  "validateBarcodeFormat text format =
     (if format = ''CODE128'' then
        (if \<not> isAscii text then invalid MsgNonAscii
         else \<lparr>valid = True, error = None\<rparr>)
      else if format = ''EAN13'' \<or> format = ''JAN'' then
        (if \<not> isNumeric text then invalid MsgDigitsOnly
         else if length text \<noteq> 12 \<and> length text \<noteq> 13 then invalid MsgEanLength
         else \<lparr>valid = True, error = None\<rparr>)
      else if format = ''CODE39'' then
        (if \<not> isCode39Compatible (toUpperCase text) then invalid MsgCode39
         else \<lparr>valid = True, error = None\<rparr>)
      else if format = ''ITF'' then
        (if \<not> isNumeric text then invalid MsgDigitsOnly
         else if length text mod 2 \<noteq> 0 then invalid MsgItfEven
         else \<lparr>valid = True, error = None\<rparr>)
      else invalid MsgUnknownFormat)"

section \<open>Data model (types.js)\<close>

text \<open>
  Objects of the source are records whose fields are strings, as they are at run time
  (the code-type, format, size and delimiter names arrive from form controls and from
  imported files). Field names that several object shapes share carry a prefix here.
\<close>

record block =
  id' :: string
  subtitle :: string
  codeType :: string
  qrErrorCorrection :: string
  barcodeFormat :: string
  sizeOverride :: string
  content :: string

record settings =
  printTitle :: string
  delimiter :: string
  customDelimiter :: string
  theme :: string
  paperSize :: string
  paperOrientation :: string

text \<open>\<open>DEFAULTS.block\<close> with a given id (\<open>createNewBlock\<close>; the id is a fresh UUID).\<close>

definition createNewBlock :: "string \<Rightarrow> block" where
  "createNewBlock uuid =
     \<lparr>id' = uuid, subtitle = [], codeType = ''qr'', qrErrorCorrection = ''M'',
      barcodeFormat = ''CODE128'', sizeOverride = ''auto'', content = []\<rparr>"

definition createDefaultSettings :: settings where
  "createDefaultSettings =
     \<lparr>printTitle = [], delimiter = ''newline'', customDelimiter = [], theme = ''auto'',
      paperSize = ''a4'', paperOrientation = ''portrait''\<rparr>"

text \<open>
  \<open>deepClone\<close> is a JSON round trip; on the data of this model (strings, numbers,
  booleans, arrays and plain objects of these) it returns an equal value.
\<close>

definition deepClone :: "'a \<Rightarrow> 'a" where
  "deepClone obj = obj"

record qrData =
  svgString :: string
  moduleCount :: nat
  qr_size :: string

record barcodeData =
  svg :: "string option"
  bc_size :: string
  bc_validation :: validation

datatype code_payload = QrPayload qrData | BarcodePayload barcodeData

text \<open>
  A generated code; \<open>code_data\<close> is its \<open>qrData\<close> or \<open>barcodeData\<close> property, and
  \<open>code_subtitle\<close> is \<open>None\<close> where the object has no \<open>subtitle\<close> property.
\<close>

record generatedCode =
  code_blockId :: string
  code_blockIndex :: nat
  code_index :: nat
  code_text :: string
  code_type :: string
  code_data :: code_payload
  code_size :: string
  code_subtitle :: "string option"

record validationError =
  err_blockId :: string
  err_lineNumber :: nat
  err_text :: string
  errorType :: string
  err_message :: "message option"

section \<open>The store (store.js)\<close>

record app_state =
  blocks :: "block list"
  settings :: settings
  generatedCodes :: "generatedCode list"
  errors :: "validationError list"
  mode :: string
  isGenerating :: bool
  progress :: "nat \<times> nat"

record snapshot =
  snap_blocks :: "block list"
  snap_settings :: settings

text \<open>
  The store: the live state, the snapshot sequence and the cursor. The listeners are left
  out: \<open>notify\<close> hands them the state and changes nothing in the store.
\<close>

record store =
  state :: app_state
  history :: "snapshot list"
  historyIndex :: int

definition MAX_HISTORY :: nat where
  "MAX_HISTORY = 20"

definition PROGRESS_THRESHOLD :: nat where
  "PROGRESS_THRESHOLD = 50"

definition AppStore_new :: "string \<Rightarrow> store" where
  "AppStore_new uuid =
     \<lparr>state = \<lparr>blocks = [createNewBlock uuid], settings = createDefaultSettings,
                generatedCodes = [], errors = [], mode = ''edit'', isGenerating = False,
                progress = (0, 0)\<rparr>,
      history = [], historyIndex = - 1\<rparr>"

text \<open>
  Partial objects passed to \<open>setState\<close>, \<open>updateBlock\<close> and \<open>updateSettings\<close>:
  a property that is absent is \<open>None\<close>, and the spread \<open>{...a, ...b}\<close> keeps
  the property of \<open>a\<close> there.
\<close>

record block_updates =
  u_id :: "string option"
  u_subtitle :: "string option"
  u_codeType :: "string option"
  u_qrErrorCorrection :: "string option"
  u_barcodeFormat :: "string option"
  u_sizeOverride :: "string option"
  u_content :: "string option"

record settings_updates =
  u_printTitle :: "string option"
  u_delimiter :: "string option"
  u_customDelimiter :: "string option"
  u_theme :: "string option"
  u_paperSize :: "string option"
  u_paperOrientation :: "string option"

record state_updates =
  u_blocks :: "block list option"
  u_settings :: "settings option"
  u_generatedCodes :: "generatedCode list option"
  u_errors :: "validationError list option"
  u_mode :: "string option"
  u_isGenerating :: "bool option"
  u_progress :: "(nat \<times> nat) option"

definition or_else :: "'a option \<Rightarrow> 'a \<Rightarrow> 'a" where
  "or_else u v = (case u of None \<Rightarrow> v | Some w \<Rightarrow> w)"

definition no_updates :: state_updates where
  "no_updates = \<lparr>u_blocks = None, u_settings = None, u_generatedCodes = None,
     u_errors = None, u_mode = None, u_isGenerating = None, u_progress = None\<rparr>"

definition spread_block :: "block \<Rightarrow> block_updates \<Rightarrow> block" where
  "spread_block b u =
     \<lparr>id' = or_else (u_id u) (id' b), subtitle = or_else (u_subtitle u) (subtitle b),
      codeType = or_else (u_codeType u) (codeType b),
      qrErrorCorrection = or_else (u_qrErrorCorrection u) (qrErrorCorrection b),
      barcodeFormat = or_else (u_barcodeFormat u) (barcodeFormat b),
      sizeOverride = or_else (u_sizeOverride u) (sizeOverride b),
      content = or_else (u_content u) (content b)\<rparr>"

definition spread_settings :: "settings \<Rightarrow> settings_updates \<Rightarrow> settings" where
  "spread_settings g u =
     \<lparr>printTitle = or_else (u_printTitle u) (printTitle g),
      delimiter = or_else (u_delimiter u) (delimiter g),
      customDelimiter = or_else (u_customDelimiter u) (customDelimiter g),
      theme = or_else (u_theme u) (theme g),
      paperSize = or_else (u_paperSize u) (paperSize g),
      paperOrientation = or_else (u_paperOrientation u) (paperOrientation g)\<rparr>"

definition spread_state :: "app_state \<Rightarrow> state_updates \<Rightarrow> app_state" where
  "spread_state a u =
     \<lparr>blocks = or_else (u_blocks u) (blocks a), settings = or_else (u_settings u) (settings a),
      generatedCodes = or_else (u_generatedCodes u) (generatedCodes a),
      errors = or_else (u_errors u) (errors a), mode = or_else (u_mode u) (mode a),
      isGenerating = or_else (u_isGenerating u) (isGenerating a),
      progress = or_else (u_progress u) (progress a)\<rparr>"

text \<open>
  \<open>Array.prototype.slice(0, e)\<close>: a negative end counts from the end of the array.
\<close>

definition js_slice0 :: "'a list \<Rightarrow> int \<Rightarrow> 'a list" where
  "js_slice0 xs e = (if e < 0 then take (nat (int (length xs) + e)) xs else take (nat e) xs)"

text \<open>
  \<open>recordHistory\<close>: cut the redo tail, push a copy of the current blocks and settings,
  then either drop the oldest snapshot (\<open>shift\<close>) or advance the cursor.
\<close>

definition recordHistory :: "store \<Rightarrow> store" where
  "recordHistory s =
     (let h1 = js_slice0 (history s) (historyIndex s + 1);
          h2 = h1 @ [deepClone \<lparr>snap_blocks = blocks (state s),
                                 snap_settings = settings (state s)\<rparr>]
      in if length h2 > MAX_HISTORY
         then s\<lparr>history := tl h2\<rparr>
         else s\<lparr>history := h2, historyIndex := historyIndex s + 1\<rparr>)"

definition setState :: "state_updates \<Rightarrow> bool \<Rightarrow> store \<Rightarrow> store" where
  "setState newState record_it s =
     (let s1 = (if record_it then recordHistory s else s)
      in s1\<lparr>state := spread_state (state s1) newState\<rparr>)"

definition addBlock :: "string \<Rightarrow> store \<Rightarrow> store" where
  "addBlock uuid s =
     setState (no_updates\<lparr>u_blocks := Some (blocks (state s) @ [createNewBlock uuid])\<rparr>) True s"

definition removeBlock :: "string \<Rightarrow> store \<Rightarrow> store" where
  "removeBlock i s =
     (if length (blocks (state s)) \<le> 1 then s
      else setState (no_updates\<lparr>u_blocks :=
             Some (filter (\<lambda>b. id' b \<noteq> i) (blocks (state s)))\<rparr>) True s)"

definition updateBlock :: "string \<Rightarrow> block_updates \<Rightarrow> store \<Rightarrow> store" where
  "updateBlock i updates s =
     setState (no_updates\<lparr>u_blocks :=
       Some (map (\<lambda>b. if id' b = i then spread_block b updates else b) (blocks (state s)))\<rparr>)
       True s"

text \<open>\<open>findIndex\<close>: the index of the first element that satisfies the test.\<close>

fun findIndex :: "('a \<Rightarrow> bool) \<Rightarrow> 'a list \<Rightarrow> nat option" where
  "findIndex P [] = None"
| "findIndex P (x # xs) =
     (if P x then Some 0 else (case findIndex P xs of None \<Rightarrow> None | Some n \<Rightarrow> Some (Suc n)))"

text \<open>
  \<open>duplicateBlock\<close>: nothing happens when no block has the id; otherwise a copy with the
  fresh id goes right after the first block with the id.
\<close>

definition duplicateBlock :: "string \<Rightarrow> string \<Rightarrow> store \<Rightarrow> store" where
  "duplicateBlock i uuid s =
     (case find (\<lambda>b. id' b = i) (blocks (state s)) of
        None \<Rightarrow> s
      | Some b \<Rightarrow>
          (let newBlock = (deepClone b)\<lparr>id' := uuid\<rparr>;
               pos = (case findIndex (\<lambda>b. id' b = i) (blocks (state s)) of
                        None \<Rightarrow> 0 | Some n \<Rightarrow> n + 1);
               newBlocks = take pos (blocks (state s)) @ [newBlock] @ drop pos (blocks (state s))
           in setState (no_updates\<lparr>u_blocks := Some newBlocks\<rparr>) True s))"

text \<open>
  The start position of \<open>Array.prototype.splice\<close>: a negative index counts from the end,
  and the result is clamped to the array.
\<close>

definition splice_start :: "nat \<Rightarrow> int \<Rightarrow> nat" where
  "splice_start len i = (if i < 0 then nat (max (int len + i) 0) else min (nat i) len)"

datatype store_error = TypeError | UndefinedBlock

text \<open>
  \<open>reorderBlocks\<close>: take the block at \<open>fromIndex\<close> out and put it in at \<open>toIndex\<close>.
  When \<open>fromIndex\<close> is past the end, the source takes nothing out and inserts
  \<open>undefined\<close>; block lists with such an entry are outside this model, and the result
  is \<open>Inl UndefinedBlock\<close>.
\<close>

definition reorderBlocks :: "int \<Rightarrow> int \<Rightarrow> store \<Rightarrow> store_error + store" where
  "reorderBlocks fromIndex toIndex s =
     (let bs = blocks (state s); f = splice_start (length bs) fromIndex
      in if f < length bs then
           (let removed = bs ! f; rest = take f bs @ drop (Suc f) bs;
                t = splice_start (length rest) toIndex
            in Inr (setState (no_updates\<lparr>u_blocks :=
                  Some (take t rest @ [removed] @ drop t rest)\<rparr>) True s))
         else Inl UndefinedBlock)"

definition updateSettings :: "settings_updates \<Rightarrow> store \<Rightarrow> store" where
  "updateSettings updates s =
     setState (no_updates\<lparr>u_settings :=
       Some (spread_settings (settings (state s)) updates)\<rparr>) True s"

definition setGeneratedCodes :: "generatedCode list \<Rightarrow> store \<Rightarrow> store" where
  "setGeneratedCodes cs s = setState (no_updates\<lparr>u_generatedCodes := Some cs\<rparr>) False s"

definition setErrors :: "validationError list \<Rightarrow> store \<Rightarrow> store" where
  "setErrors es s = setState (no_updates\<lparr>u_errors := Some es\<rparr>) False s"

definition setGenerating :: "bool \<Rightarrow> store \<Rightarrow> store" where
  "setGenerating g s = setState (no_updates\<lparr>u_isGenerating := Some g\<rparr>) False s"

definition setProgress :: "nat \<Rightarrow> nat \<Rightarrow> store \<Rightarrow> store" where
  "setProgress cur tot s = setState (no_updates\<lparr>u_progress := Some (cur, tot)\<rparr>) False s"

definition setMode :: "string \<Rightarrow> store \<Rightarrow> store" where
  "setMode m s = setState (no_updates\<lparr>u_mode := Some m\<rparr>) False s"

definition reset :: "string \<Rightarrow> store \<Rightarrow> store" where
  "reset uuid s =
     (setState \<lparr>u_blocks = Some [createNewBlock uuid], u_settings = Some createDefaultSettings,
                u_generatedCodes = Some [], u_errors = Some [], u_mode = Some ''edit'',
                u_isGenerating = Some False, u_progress = Some (0, 0)\<rparr> True s)
     \<lparr>history := [], historyIndex := - 1\<rparr>"

definition canUndo :: "store \<Rightarrow> bool" where
  "canUndo s = (historyIndex s > 0)"

definition canRedo :: "store \<Rightarrow> bool" where
  "canRedo s = (historyIndex s < int (length (history s)) - 1)"

text \<open>
  \<open>history[i]\<close> is \<open>undefined\<close> outside the array, and reading a property of it throws
  a TypeError (the cursor has moved by then; the store after the exception is not
  modelled).
\<close>

definition restore :: "int \<Rightarrow> store \<Rightarrow> store_error + store" where
  "restore i s =
     (if 0 \<le> i \<and> i < int (length (history s)) then
        (let target = history s ! nat i
         in Inr (s\<lparr>historyIndex := i,
                   state := (state s)\<lparr>blocks := deepClone (snap_blocks target),
                                      settings := deepClone (snap_settings target)\<rparr>\<rparr>))
      else Inl TypeError)"

definition undo :: "store \<Rightarrow> store_error + store" where
  "undo s = (if \<not> canUndo s then Inr s else restore (historyIndex s - 1) s)"

definition redo :: "store \<Rightarrow> store_error + store" where
  "redo s = (if \<not> canRedo s then Inr s else restore (historyIndex s + 1) s)"

text \<open>
  The persisted record read by \<open>fromJSON\<close>: \<open>None\<close> is a property that is absent (or
  falsy); an empty array is a value that is present, and \<open>[] || x\<close> is \<open>[]\<close>.
\<close>

record json_data =
  j_blocks :: "block list option"
  j_globalSettings :: "settings_updates option"

definition no_settings_updates :: settings_updates where
  "no_settings_updates = \<lparr>u_printTitle = None, u_delimiter = None, u_customDelimiter = None,
     u_theme = None, u_paperSize = None, u_paperOrientation = None\<rparr>"

definition fromJSON :: "json_data \<Rightarrow> string \<Rightarrow> store \<Rightarrow> store" where
  "fromJSON d uuid s =
     setState (no_updates\<lparr>
       u_blocks := Some (or_else (j_blocks d) [createNewBlock uuid]),
       u_settings := Some (spread_settings createDefaultSettings
                            (or_else (j_globalSettings d) no_settings_updates))\<rparr>) True s"

text \<open>The operations of the store as commands, and their runs from a store.\<close>

datatype store_op =
    AddBlock string
  | RemoveBlock string
  | UpdateBlock string block_updates
  | DuplicateBlock string string
  | ReorderBlocks int int
  | UpdateSettings settings_updates
  | SetGeneratedCodes "generatedCode list"
  | SetErrors "validationError list"
  | SetGenerating bool
  | SetProgress nat nat
  | SetMode string
  | SetState state_updates bool
  | Reset string
  | Undo
  | Redo
  | FromJSON json_data string

fun apply_op :: "store_op \<Rightarrow> store \<Rightarrow> store_error + store" where
  "apply_op (AddBlock uuid) s = Inr (addBlock uuid s)"
| "apply_op (RemoveBlock i) s = Inr (removeBlock i s)"
| "apply_op (UpdateBlock i u) s = Inr (updateBlock i u s)"
| "apply_op (DuplicateBlock i uuid) s = Inr (duplicateBlock i uuid s)"
| "apply_op (ReorderBlocks f t) s = reorderBlocks f t s"
| "apply_op (UpdateSettings u) s = Inr (updateSettings u s)"
| "apply_op (SetGeneratedCodes cs) s = Inr (setGeneratedCodes cs s)"
| "apply_op (SetErrors es) s = Inr (setErrors es s)"
| "apply_op (SetGenerating g) s = Inr (setGenerating g s)"
| "apply_op (SetProgress c t) s = Inr (setProgress c t s)"
| "apply_op (SetMode m) s = Inr (setMode m s)"
| "apply_op (SetState u r) s = Inr (setState u r s)"
| "apply_op (Reset uuid) s = Inr (reset uuid s)"
| "apply_op Undo s = undo s"
| "apply_op Redo s = redo s"
| "apply_op (FromJSON d uuid) s = Inr (fromJSON d uuid s)"

fun run :: "store_op list \<Rightarrow> store \<Rightarrow> store_error + store" where
  "run [] s = Inr s"
| "run (c # cs) s = (case apply_op c s of Inl e \<Rightarrow> Inl e | Inr s' \<Rightarrow> run cs s')"

text \<open>The invariant of the snapshot sequence and its cursor.\<close>

definition history_ok :: "store \<Rightarrow> bool" where
  "history_ok s = (length (history s) \<le> MAX_HISTORY \<and> - 1 \<le> historyIndex s
     \<and> historyIndex s < int (length (history s)))"

section \<open>Code generators (qrGenerator.js, barcodeGenerator.js)\<close>

text \<open>
  The drawing libraries are not part of the repository; they are parameters. A library
  is \<open>None\<close> when its global is undefined. The QR library takes the error-correction
  level and the text and gives the SVG tag and the module count, or \<open>None\<close> when one of
  its calls throws. The barcode library takes the text and the format configuration and
  gives the drawn picture, or the message of the exception it throws. Every call of a
  library is appended to a log, so that a run shows which items were drawn.
\<close>

type_synonym qrcode_lib = "string \<Rightarrow> string \<Rightarrow> (string \<times> nat) option"

record formatConfig =
  fc_format :: string
  fc_width :: nat
  fc_height :: nat

type_synonym jsbarcode_lib = "string \<Rightarrow> formatConfig \<Rightarrow> string + string"

datatype draw_call = QrCall string string | BarcodeCall string formatConfig

definition QRGenerator_generate ::
  "qrcode_lib option \<Rightarrow> string \<Rightarrow> string \<Rightarrow> draw_call list \<Rightarrow> qrData option \<times> draw_call list"
where
  "QRGenerator_generate lib txt errorCorrectionLevel calls =
     (case lib of
        None \<Rightarrow> (None, calls)
      | Some qrcode \<Rightarrow>
          (case qrcode errorCorrectionLevel txt of
             None \<Rightarrow> (None, calls @ [QrCall errorCorrectionLevel txt])
           | Some (svgTag, n) \<Rightarrow>
               (Some \<lparr>svgString = svgTag, moduleCount = n, qr_size = getQRSize n\<rparr>,
                calls @ [QrCall errorCorrectionLevel txt])))"

definition format_configs :: "(string \<times> formatConfig) list" where
  "format_configs =
     [(''CODE128'', \<lparr>fc_format = ''CODE128'', fc_width = 2, fc_height = 40\<rparr>),
      (''EAN13'', \<lparr>fc_format = ''EAN13'', fc_width = 2, fc_height = 40\<rparr>),
      (''JAN'', \<lparr>fc_format = ''EAN13'', fc_width = 2, fc_height = 40\<rparr>),
      (''CODE39'', \<lparr>fc_format = ''CODE39'', fc_width = 2, fc_height = 40\<rparr>),
      (''ITF'', \<lparr>fc_format = ''ITF'', fc_width = 2, fc_height = 40\<rparr>)]"

definition getFormatConfig :: "string \<Rightarrow> formatConfig" where
  "getFormatConfig fmt =
     (case map_of format_configs fmt of
        None \<Rightarrow> \<lparr>fc_format = ''CODE128'', fc_width = 2, fc_height = 40\<rparr>
      | Some c \<Rightarrow> c)"

text \<open>
  \<open>BarcodeGenerator.generate\<close>: a missing library and an exception of the library end in
  the \<open>catch\<close> branch; a text that fails validation returns before the library is called.
\<close>

definition BarcodeGenerator_generate ::
  "jsbarcode_lib option \<Rightarrow> string \<Rightarrow> string \<Rightarrow> draw_call list \<Rightarrow> barcodeData \<times> draw_call list"
where
  "BarcodeGenerator_generate lib txt fmt calls =
     (case lib of
        None \<Rightarrow>
          (\<lparr>svg = None, bc_size = ''medium'', bc_validation = invalid MsgBarcodeLibMissing\<rparr>,
           calls)
      | Some JsBarcode \<Rightarrow>
          (let validation = validateBarcodeFormat txt fmt
           in if \<not> valid validation then
                (\<lparr>svg = None, bc_size = getBarcodeSize (length txt),
                  bc_validation = validation\<rparr>, calls)
              else
                (let config = getFormatConfig fmt
                 in case JsBarcode txt config of
                      Inl msg \<Rightarrow>
                        (\<lparr>svg = None, bc_size = ''medium'',
                          bc_validation = invalid (MsgText msg)\<rparr>,
                         calls @ [BarcodeCall txt config])
                    | Inr picture \<Rightarrow>
                        (\<lparr>svg = Some picture, bc_size = getBarcodeSize (length txt),
                          bc_validation = \<lparr>valid = True, error = None\<rparr>\<rparr>,
                         calls @ [BarcodeCall txt config]))))"

section \<open>Code generation (app_v2.js)\<close>

text \<open>The two result arrays of a generation run, and the log of library calls.\<close>

record gen_acc =
  gen_codes :: "generatedCode list"
  gen_errors :: "validationError list"
  gen_calls :: "draw_call list"

text \<open>
  \<open>e || fallback\<close> for the message of a failed barcode: the fallback stands in when the
  message is absent or the empty text.
\<close>

definition message_or :: "message option \<Rightarrow> message \<Rightarrow> message" where
  "message_or e fallback =
     (case e of None \<Rightarrow> fallback
      | Some m \<Rightarrow> (if m = MsgText [] then fallback else m))"

text \<open>
  The body of the loop over the items of one block in \<open>generateCodes\<close>. The second
  component is the counter \<open>itemIndex\<close>, which every branch reads and then increments.
\<close>

definition encodeItem ::
  "qrcode_lib option \<Rightarrow> jsbarcode_lib option \<Rightarrow> block \<Rightarrow> nat \<Rightarrow> string
     \<Rightarrow> gen_acc \<times> nat \<Rightarrow> gen_acc \<times> nat"
where
  "encodeItem qr bc b blockIndex txt st =
     (let acc = fst st; itemIndex = snd st in
      if codeType b = ''qr'' then
        (case QRGenerator_generate qr txt (qrErrorCorrection b) (gen_calls acc) of
           (Some q, calls') \<Rightarrow>
             (acc\<lparr>gen_codes := gen_codes acc @
                  [\<lparr>code_blockId = id' b, code_blockIndex = blockIndex, code_index = itemIndex,
                    code_text = txt, code_type = ''qr'', code_data = QrPayload q,
                    code_size = (if sizeOverride b = ''auto'' then qr_size q else sizeOverride b),
                    code_subtitle = Some (subtitle b)\<rparr>],
                  gen_calls := calls'\<rparr>, itemIndex + 1)
         | (None, calls') \<Rightarrow>
             (acc\<lparr>gen_errors := gen_errors acc @
                  [\<lparr>err_blockId = id' b, err_lineNumber = itemIndex, err_text = txt,
                    errorType = ''generation_failed'', err_message = Some MsgQrFailed\<rparr>],
                  gen_calls := calls'\<rparr>, itemIndex + 1))
      else
        (let validation = validateBarcodeFormat txt (barcodeFormat b) in
         if \<not> valid validation then
           (acc\<lparr>gen_errors := gen_errors acc @
                [\<lparr>err_blockId = id' b, err_lineNumber = itemIndex, err_text = txt,
                  errorType = ''validation_failed'', err_message = error validation\<rparr>]\<rparr>,
            itemIndex + 1)
         else
           (case BarcodeGenerator_generate bc txt (barcodeFormat b) (gen_calls acc) of
              (barcode, calls') \<Rightarrow>
                (case svg barcode of
                   Some picture \<Rightarrow>
                     (acc\<lparr>gen_codes := gen_codes acc @
                          [\<lparr>code_blockId = id' b, code_blockIndex = blockIndex,
                            code_index = itemIndex, code_text = txt, code_type = ''barcode'',
                            code_data = BarcodePayload barcode,
                            code_size = (if sizeOverride b = ''auto'' then bc_size barcode
                                         else sizeOverride b),
                            code_subtitle = Some (subtitle b)\<rparr>],
                          gen_calls := calls'\<rparr>, itemIndex + 1)
                 | None \<Rightarrow>
                     (acc\<lparr>gen_errors := gen_errors acc @
                          [\<lparr>err_blockId = id' b, err_lineNumber = itemIndex, err_text = txt,
                            errorType = ''generation_failed'',
                            err_message = Some (message_or (error (bc_validation barcode))
                                                  MsgBarcodeFailed)\<rparr>],
                          gen_calls := calls'\<rparr>, itemIndex + 1)))))"

text \<open>
  The body of the loop over the blocks: a block with blank content is skipped; otherwise
  its items are encoded in order, with the counter starting at 1.
\<close>

definition generateBlock ::
  "qrcode_lib option \<Rightarrow> jsbarcode_lib option \<Rightarrow> string \<Rightarrow> gen_acc \<Rightarrow> block \<times> nat \<Rightarrow> gen_acc"
where
  "generateBlock qr bc delim acc bi =
     (let b = fst bi; blockIndex = snd bi in
      if js_trim (content b) = [] then acc
      else fst (foldl (\<lambda>st txt. encodeItem qr bc b blockIndex txt st) (acc, 1)
                  (parseContent (content b) delim)))"

text \<open>\<open>forEach((block, blockIndex) => ...)\<close>: the blocks with their indices.\<close>

definition with_index :: "'a list \<Rightarrow> ('a \<times> nat) list" where
  "with_index xs = zip xs [0..<length xs]"

definition countItems :: "string \<Rightarrow> block list \<Rightarrow> nat" where
  "countItems delim bs =
     foldl (\<lambda>totalCount b.
              if js_trim (content b) \<noteq> [] then totalCount + length (parseContent (content b) delim)
              else totalCount) 0 bs"

record worker_request =
  msg_blocks :: "block list"
  msg_settings :: settings

text \<open>
  A run of \<open>generateCodes\<close> either posts the blocks and settings to the worker and
  returns, or generates on the main thread and stores the codes and the errors. The
  worker is \<open>None\<close> when its construction failed (\<open>initWorker\<close> leaves \<open>null\<close>).
\<close>

datatype generation = Delegated store worker_request | Direct store gen_acc

definition generateDirect ::
  "qrcode_lib option \<Rightarrow> jsbarcode_lib option \<Rightarrow> string \<Rightarrow> draw_call list \<Rightarrow> block list \<Rightarrow> gen_acc"
where
  "generateDirect qr bc delim calls bs =
     foldl (generateBlock qr bc delim) \<lparr>gen_codes = [], gen_errors = [], gen_calls = calls\<rparr>
       (with_index bs)"

definition generateWithWorker :: "block list \<Rightarrow> settings \<Rightarrow> store \<Rightarrow> generation" where
  "generateWithWorker bs g s =
     Delegated (setGenerating True s) \<lparr>msg_blocks = bs, msg_settings = g\<rparr>"

definition generateCodes ::
  "qrcode_lib option \<Rightarrow> jsbarcode_lib option \<Rightarrow> 'w option \<Rightarrow> draw_call list \<Rightarrow> store
     \<Rightarrow> generation"
where
  "generateCodes qr bc worker calls s =
     (let bs = blocks (state s); g = settings (state s);
          delim = getDelimiter (delimiter g) (customDelimiter g);
          totalCount = countItems delim bs
      in if totalCount \<ge> PROGRESS_THRESHOLD \<and> worker \<noteq> None
         then generateWithWorker bs g s
         else (let acc = generateDirect qr bc delim calls bs
               in Direct (setErrors (gen_errors acc)
                           (setGeneratedCodes (gen_codes acc)
                             (setGenerating False (setGenerating True s)))) acc))"

text \<open>Whether a run of \<open>generateCodes\<close> took the worker path.\<close>

definition delegated :: "generation \<Rightarrow> bool" where
  "delegated r = (case r of Delegated s m \<Rightarrow> True | Direct s acc \<Rightarrow> False)"

text \<open>The number of items of a block: none when its content is blank.\<close>

definition itemCount :: "string \<Rightarrow> block \<Rightarrow> nat" where
  "itemCount delim b = (if js_trim (content b) = [] then 0 else length (parseContent (content b) delim))"

section \<open>The worker (worker.js)\<close>

record encodeRequest =
  req_blockId :: string
  req_blockIndex :: nat
  req_itemIndex :: nat
  req_text :: string
  req_codeType :: string
  req_qrErrorCorrection :: string
  req_barcodeFormat :: string
  req_sizeOverride :: string

text \<open>
  The worker has its own copies of \<open>getDelimiter\<close> and \<open>parseContent\<close>. As above,
  the lookup is in the table's own keys; the names that every object inherits are outside
  the definition.
\<close>

definition worker_getDelimiter :: "string \<Rightarrow> string \<Rightarrow> string" where
  "worker_getDelimiter dtype custom =
     (case map_of [(''newline'', [LF]), (''comma'', '',''), (''semicolon'', '';''),
                   (''tab'', [TAB]), (''custom'', if custom = [] then [LF] else custom)] dtype of
        None \<Rightarrow> [LF]
      | Some d \<Rightarrow> (if d = [] then [LF] else d))"

definition worker_parseContent :: "string \<Rightarrow> settings \<Rightarrow> string list" where
  "worker_parseContent cont g =
     filter (\<lambda>item. length item > 0)
       (map js_trim (js_split cont (worker_getDelimiter (delimiter g) (customDelimiter g))))"

datatype worker_message =
    PROGRESS nat nat
  | COMPLETE "encodeRequest list"
  | ERROR string

text \<open>
  The state of the worker's loops: the results, the number of processed items and the
  messages posted so far.
\<close>

record worker_state =
  w_results :: "encodeRequest list"
  w_processedItems :: nat
  w_posted :: "worker_message list"

definition worker_item :: "nat \<Rightarrow> block \<Rightarrow> nat \<Rightarrow> worker_state \<Rightarrow> string \<times> nat \<Rightarrow> worker_state"
where
  "worker_item totalItems b blockIndex w ii =
     (let item = fst ii; itemIndex = snd ii;
          results = w_results w @
            [\<lparr>req_blockId = id' b, req_blockIndex = blockIndex, req_itemIndex = itemIndex,
              req_text = item, req_codeType = codeType b,
              req_qrErrorCorrection = qrErrorCorrection b,
              req_barcodeFormat = barcodeFormat b, req_sizeOverride = sizeOverride b\<rparr>];
          processedItems = w_processedItems w + 1
      in \<lparr>w_results = results, w_processedItems = processedItems,
          w_posted = (if processedItems mod 10 = 0 \<or> processedItems = totalItems
                      then w_posted w @ [PROGRESS processedItems totalItems]
                      else w_posted w)\<rparr>)"

definition worker_block :: "nat \<Rightarrow> settings \<Rightarrow> worker_state \<Rightarrow> block \<times> nat \<Rightarrow> worker_state"
where
  "worker_block totalItems g w bi =
     (let b = fst bi; blockIndex = snd bi in
      if js_trim (content b) = [] then w
      else foldl (worker_item totalItems b blockIndex) w
             (with_index (worker_parseContent (content b) g)))"

definition worker_onmessage :: "worker_request \<Rightarrow> worker_message list" where
  "worker_onmessage req =
     (let bs = msg_blocks req; g = msg_settings req;
          totalItems = foldl (\<lambda>n b. if js_trim (content b) \<noteq> []
                                      then n + length (worker_parseContent (content b) g)
                                      else n) 0 bs;
          w = foldl (worker_block totalItems g)
                \<lparr>w_results = [], w_processedItems = 0, w_posted = []\<rparr> (with_index bs)
      in w_posted w @ [COMPLETE (w_results w)])"

text \<open>
  \<open>finalizeCodesFromWorker\<close>: the loop over the worker's requests. A request whose
  generator gives nothing leaves both arrays as they are; the codes have no
  \<open>subtitle\<close> property. Only the codes are stored.
\<close>

definition finalizeItem ::
  "qrcode_lib option \<Rightarrow> jsbarcode_lib option \<Rightarrow> gen_acc \<Rightarrow> encodeRequest \<Rightarrow> gen_acc"
where
  "finalizeItem qr bc acc item =
     (if req_codeType item = ''qr'' then
        (case QRGenerator_generate qr (req_text item) (req_qrErrorCorrection item)
                (gen_calls acc) of
           (Some q, calls') \<Rightarrow>
             acc\<lparr>gen_codes := gen_codes acc @
                 [\<lparr>code_blockId = req_blockId item, code_blockIndex = req_blockIndex item,
                   code_index = req_itemIndex item + 1, code_text = req_text item,
                   code_type = ''qr'', code_data = QrPayload q,
                   code_size = (if req_sizeOverride item = ''auto'' then qr_size q
                                else req_sizeOverride item),
                   code_subtitle = None\<rparr>],
                 gen_calls := calls'\<rparr>
         | (None, calls') \<Rightarrow> acc\<lparr>gen_calls := calls'\<rparr>)
      else
        (case BarcodeGenerator_generate bc (req_text item) (req_barcodeFormat item)
                (gen_calls acc) of
           (barcode, calls') \<Rightarrow>
             (case svg barcode of
                Some picture \<Rightarrow>
                  acc\<lparr>gen_codes := gen_codes acc @
                      [\<lparr>code_blockId = req_blockId item, code_blockIndex = req_blockIndex item,
                        code_index = req_itemIndex item + 1, code_text = req_text item,
                        code_type = ''barcode'', code_data = BarcodePayload barcode,
                        code_size = (if req_sizeOverride item = ''auto'' then bc_size barcode
                                     else req_sizeOverride item),
                        code_subtitle = None\<rparr>],
                      gen_calls := calls'\<rparr>
              | None \<Rightarrow> acc\<lparr>gen_calls := calls'\<rparr>)))"

definition finalizeCodesFromWorker ::
  "qrcode_lib option \<Rightarrow> jsbarcode_lib option \<Rightarrow> encodeRequest list \<Rightarrow> draw_call list \<Rightarrow> store
     \<Rightarrow> store \<times> gen_acc"
where
  "finalizeCodesFromWorker qr bc results calls s =
     (let acc = foldl (finalizeItem qr bc)
                  \<lparr>gen_codes = [], gen_errors = [], gen_calls = calls\<rparr> results
      in (setGeneratedCodes (gen_codes acc) s, acc))"

text \<open>
  \<open>handleWorkerMessage\<close>; for a message that starts no generation the accumulator is
  \<open>None\<close>.
\<close>

definition handleWorkerMessage ::
  "qrcode_lib option \<Rightarrow> jsbarcode_lib option \<Rightarrow> worker_message \<Rightarrow> draw_call list \<Rightarrow> store
     \<Rightarrow> store \<times> gen_acc option"
where
  "handleWorkerMessage qr bc m calls s =
     (case m of
        PROGRESS cur tot \<Rightarrow> (setProgress cur tot s, None)
      | COMPLETE results \<Rightarrow>
          (case finalizeCodesFromWorker qr bc results calls (setGenerating False s) of
             (s', acc) \<Rightarrow> (s', Some acc))
      | ERROR e \<Rightarrow> (setGenerating False s, None))"

section \<open>CSV (utils.js)\<close>

text \<open>
  \<open>toCSV\<close>: a field that contains a double quote, a comma or a line feed is put in
  double quotes with its double quotes doubled; fields are joined by commas and rows by
  line feeds. The fields are strings, on which \<open>String(field || '')\<close> is the field.
\<close>

definition csv_escape :: "string \<Rightarrow> string" where
  "csv_escape f = concat (map (\<lambda>c. if c = DQ then [DQ, DQ] else [c]) f)"

definition csv_field :: "string \<Rightarrow> string" where
  "csv_field f =
     (if DQ \<in> set f \<or> COMMA \<in> set f \<or> LF \<in> set f then [DQ] @ csv_escape f @ [DQ] else f)"

definition toCSV :: "string list list \<Rightarrow> string" where
  "toCSV rows = js_join [LF] (map (\<lambda>row. js_join [COMMA] (map csv_field row)) rows)"

text \<open>
  The loop of \<open>parseCSV\<close> over the characters, with its variables \<open>result\<close>,
  \<open>row\<close>, \<open>current\<close> and \<open>inQuote\<close>. The step that looks at \<open>nextChar\<close>
  and skips it recurses on the text after it.
\<close>

fun parseCSV_loop ::
  "string \<Rightarrow> string list list \<Rightarrow> string list \<Rightarrow> string \<Rightarrow> bool
     \<Rightarrow> string list list \<times> string list \<times> string"
where
  "parseCSV_loop [] result row current inQuote = (result, row, current)"
| "parseCSV_loop (c # cs) result row current inQuote =
     (if inQuote then
        (if c = DQ then
           (case cs of
              [] \<Rightarrow> parseCSV_loop cs result row current False
            | nextChar # cs' \<Rightarrow>
                (if nextChar = DQ then parseCSV_loop cs' result row (current @ [DQ]) True
                 else parseCSV_loop cs result row current False))
         else parseCSV_loop cs result row (current @ [c]) True)
      else
        (if c = DQ then parseCSV_loop cs result row current True
         else if c = COMMA then parseCSV_loop cs result (row @ [current]) [] False
         else if c = LF \<or> c = CR then
           (case cs of
              [] \<Rightarrow> parseCSV_loop cs (result @ [row @ [current]]) [] [] False
            | nextChar # cs' \<Rightarrow>
                (if c = CR \<and> nextChar = LF
                 then parseCSV_loop cs' (result @ [row @ [current]]) [] [] False
                 else parseCSV_loop cs (result @ [row @ [current]]) [] [] False))
         else parseCSV_loop cs result row (current @ [c]) False))"

definition parseCSV :: "string \<Rightarrow> string list list" where
  "parseCSV txt =
     (case parseCSV_loop txt [] [] [] False of
        (result, row, current) \<Rightarrow>
          (if current \<noteq> [] \<or> length row > 0 then result @ [row @ [current]] else result))"

section \<open>Export and import of the columnar CSV format (app_v2.js)\<close>

text \<open>
  \<open>content.split(/\r?\n/)\<close>: the content is cut at every line feed, and a carriage
  return right before the line feed goes with it.
\<close>

fun split_lines :: "string \<Rightarrow> string list" where
  "split_lines [] = [[]]"
| "split_lines (c # cs) =
     (if c = CR \<and> (case cs of [] \<Rightarrow> False | n # cs' \<Rightarrow> n = LF) then [] # split_lines (tl cs)
      else if c = LF then [] # split_lines cs
      else (case split_lines cs of
              [] \<Rightarrow> [[c]]
            | p # ps \<Rightarrow> (c # p) # ps))"

declare split_lines.simps(2) [simp del]

text \<open>\<open>xs[i] || ''\<close>: the element, or the empty string when there is none.\<close>

definition nth_or_empty :: "string list \<Rightarrow> nat \<Rightarrow> string" where
  "nth_or_empty xs i = (if i < length xs then xs ! i else [])"

definition blockContents :: "block list \<Rightarrow> string list list" where
  "blockContents bs = map (\<lambda>b. if content b = [] then [] else split_lines (content b)) bs"

text \<open>\<open>Math.max(...lengths, 0)\<close>.\<close>

definition maxLines :: "string list list \<Rightarrow> nat" where
  "maxLines contents = foldr max (map length contents) 0"

definition content_row :: "string list list \<Rightarrow> nat \<Rightarrow> string list" where
  "content_row contents i =
     (if i = 0 then ''Content'' else []) # map (\<lambda>lines. nth_or_empty lines i) contents"

text \<open>The rows built by \<open>exportData\<close>, and the text it hands to the download.\<close>

definition export_rows :: "block list \<Rightarrow> string list list" where
  "export_rows bs =
     [''Subtitle'' # map subtitle bs,
      ''CodeType'' # map codeType bs,
      ''QRErrorCorrection'' # map qrErrorCorrection bs,
      ''BarcodeFormat'' # map barcodeFormat bs,
      ''SizeOverride'' # map sizeOverride bs]
     @ map (content_row (blockContents bs)) [0..<maxLines (blockContents bs)]"

definition exportData :: "block list \<Rightarrow> string" where
  "exportData bs = toCSV (export_rows bs)"

text \<open>
  \<open>row[col]\<close> is \<open>undefined\<close> past the end of the row; \<open>v || d\<close> is \<open>d\<close> when
  \<open>v\<close> is undefined or empty.
\<close>

definition cell :: "string list \<Rightarrow> nat \<Rightarrow> string option" where
  "cell row col = (if col < length row then Some (row ! col) else None)"

definition str_or :: "string option \<Rightarrow> string \<Rightarrow> string" where
  "str_or v d = (case v of None \<Rightarrow> d | Some x \<Rightarrow> (if x = [] then d else x))"

definition findRow :: "string list list \<Rightarrow> string \<Rightarrow> string list option" where
  "findRow csvData key = find (\<lambda>row. cell row 0 = Some key) csvData"

definition knownKeys :: "string list" where
  "knownKeys = [''Subtitle'', ''CodeType'', ''QRErrorCorrection'', ''BarcodeFormat'',
     ''SizeOverride'']"

text \<open>The test that ends the loop over the content rows.\<close>

definition is_key_row :: "string list \<Rightarrow> bool" where
  "is_key_row row = (case cell row 0 of None \<Rightarrow> False | Some k \<Rightarrow> k \<noteq> [] \<and> k \<in> set knownKeys)"

text \<open>
  The lines of column \<open>col\<close>: from the first row whose first cell is \<open>Content\<close> up
  to the next row that starts with a known key; trailing empty lines are dropped.
\<close>

definition contentLines :: "string list list \<Rightarrow> nat \<Rightarrow> nat \<Rightarrow> string list" where
  "contentLines csvData contentRowIndex col =
     (let taken = (case drop contentRowIndex csvData of
                     [] \<Rightarrow> []
                   | r # rs \<Rightarrow> r # takeWhile (\<lambda>row. \<not> is_key_row row) rs);
          ls = map (\<lambda>row. case cell row col of None \<Rightarrow> [] | Some v \<Rightarrow> v) taken
      in rev (dropWhile (\<lambda>l. l = []) (rev ls)))"

text \<open>The block of column \<open>col\<close> in the columnar branch of \<open>importData\<close>.\<close>

definition import_block :: "string list list \<Rightarrow> nat \<Rightarrow> string \<Rightarrow> block" where
  "import_block csvData col uuid =
     (let b0 = createNewBlock uuid;
          b1 = (case findRow csvData ''Subtitle'' of
                  None \<Rightarrow> b0
                | Some r \<Rightarrow> b0\<lparr>subtitle := str_or (cell r col) []\<rparr>);
          b2 = (case findRow csvData ''CodeType'' of
                  None \<Rightarrow> b1
                | Some r \<Rightarrow> b1\<lparr>codeType :=
                    (if cell r col = Some ''barcode'' then ''barcode'' else ''qr'')\<rparr>);
          b3 = (case findRow csvData ''QRErrorCorrection'' of
                  None \<Rightarrow> b2
                | Some r \<Rightarrow> b2\<lparr>qrErrorCorrection := str_or (cell r col) ''M''\<rparr>);
          b4 = (case findRow csvData ''BarcodeFormat'' of
                  None \<Rightarrow> b3
                | Some r \<Rightarrow> b3\<lparr>barcodeFormat := str_or (cell r col) ''CODE128''\<rparr>);
          b5 = (case findRow csvData ''SizeOverride'' of
                  None \<Rightarrow> b4
                | Some r \<Rightarrow> b4\<lparr>sizeOverride := str_or (cell r col) ''auto''\<rparr>)
      in case findIndex (\<lambda>row. cell row 0 = Some ''Content'') csvData of
           None \<Rightarrow> b5
         | Some contentRowIndex \<Rightarrow>
             b5\<lparr>content := js_join [LF] (contentLines csvData contentRowIndex col)\<rparr>)"

text \<open>
  The errors of the import: no rows at all, no data column, no block. \<open>uuid\<close> gives the
  fresh id of the block of each column.
\<close>

datatype import_error = EmptyData | NoDataColumns | NoValidData

definition import_columnar :: "string list list \<Rightarrow> (nat \<Rightarrow> string) \<Rightarrow> import_error + block list"
where
  "import_columnar csvData uuid =
     (case csvData of
        [] \<Rightarrow> Inl EmptyData
      | header # others \<Rightarrow>
          (let numBlocks = int (length header) - 1 in
           if numBlocks < 1 then Inl NoDataColumns
           else (let newBlocks = map (\<lambda>col. import_block csvData col (uuid col))
                                   [1..<Suc (nat numBlocks)]
                 in if length newBlocks = 0 then Inl NoValidData else Inr newBlocks)))"

text \<open>
  The format detection of \<open>importData\<close>. The rows are taken for the legacy row format
  when the first row contains both \<open>CodeType\<close> and \<open>Content\<close> anywhere, and for the
  columnar format when they are not and some row starts with \<open>CodeType\<close>.
\<close>

definition isOldFormat :: "string list list \<Rightarrow> bool" where
  "isOldFormat csvData =
     (case csvData of
        [] \<Rightarrow> False
      | headerRow # others \<Rightarrow> ''CodeType'' \<in> set headerRow \<and> ''Content'' \<in> set headerRow)"

definition isNewFormat :: "string list list \<Rightarrow> bool" where
  "isNewFormat csvData =
     (\<not> isOldFormat csvData \<and> list_ex (\<lambda>row. cell row 0 = Some ''CodeType'') csvData)"

text \<open>
  The legacy branch: one block per row of at least three cells, the first row skipped
  when it starts with \<open>Subtitle\<close>. Subtitle, code type and content are always
  assigned; the other three cells only when they are present and not empty.
\<close>

definition legacy_block :: "string list \<Rightarrow> string \<Rightarrow> block" where
  "legacy_block row uuid =
     (let b = createNewBlock uuid
      in b\<lparr>subtitle := str_or (cell row 0) [],
           codeType := (if cell row 1 = Some ''barcode'' then ''barcode'' else ''qr''),
           content := str_or (cell row 2) [],
           qrErrorCorrection := str_or (cell row 3) (qrErrorCorrection b),
           barcodeFormat := str_or (cell row 4) (barcodeFormat b),
           sizeOverride := str_or (cell row 5) (sizeOverride b)\<rparr>)"

definition import_legacy :: "string list list \<Rightarrow> (nat \<Rightarrow> string) \<Rightarrow> block list" where
  "import_legacy csvData uuid =
     (let startRow = (case csvData of
                        [] \<Rightarrow> 0
                      | r # rs \<Rightarrow> (if cell r 0 = Some ''Subtitle'' then 1 else 0))
      in map (\<lambda>ri. legacy_block (fst ri) (uuid (snd ri)))
           (filter (\<lambda>ri. \<not> length (fst ri) < 3) (drop startRow (with_index csvData))))"

text \<open>
  The CSV branch of \<open>importData\<close>, from the text of the file to the blocks that it hands
  to the store once the user has confirmed: the columnar branch runs only when the rows
  are detected as columnar, and the legacy branch runs otherwise.
\<close>

definition importCSV :: "string \<Rightarrow> (nat \<Rightarrow> string) \<Rightarrow> import_error + block list" where
  "importCSV txt uuid =
     (let csvData = parseCSV txt in
      if length csvData = 0 then Inl EmptyData
      else if isNewFormat csvData then import_columnar csvData uuid
      else (let newBlocks = import_legacy csvData uuid
            in if length newBlocks = 0 then Inl NoValidData else Inr newBlocks))"

text \<open>Equality of blocks but for their ids.\<close>

definition same_but_id :: "block \<Rightarrow> block \<Rightarrow> bool" where
  "same_but_id a b =
     (subtitle a = subtitle b \<and> codeType a = codeType b
      \<and> qrErrorCorrection a = qrErrorCorrection b \<and> barcodeFormat a = barcodeFormat b
      \<and> sizeOverride a = sizeOverride b \<and> content a = content b)"

text \<open>
  A block as the type \<open>Block\<close> of types.js declares it: every selection is one of its
  declared values.
\<close>

definition well_typed :: "block \<Rightarrow> bool" where
  "well_typed b =
     (codeType b \<in> set [''qr'', ''barcode'']
      \<and> qrErrorCorrection b \<in> set [''L'', ''M'', ''Q'', ''H'']
      \<and> barcodeFormat b \<in> set [''CODE128'', ''EAN13'', ''JAN'', ''CODE39'', ''ITF'']
      \<and> sizeOverride b \<in> set [''auto'', ''small'', ''medium'', ''large''])"

text \<open>
  The blocks that the columnar format carries: typed selections, no carriage return in
  the subtitle or the content, and a content that is not empty and does not end with a
  line feed.
\<close>

definition exportable :: "block \<Rightarrow> bool" where
  "exportable b =
     (well_typed b \<and> CR \<notin> set (subtitle b) \<and> CR \<notin> set (content b)
      \<and> content b \<noteq> [] \<and> last (content b) \<noteq> LF)"


section \<open>Example inputs\<close>

text \<open>
  A store whose only block is an EAN13 barcode block with \<open>n\<close> lines \<open>1\<close>; a store
  whose block has one valid line and 49 invalid ones; the block of two lines of the
  specification's example; and two barcode libraries, one that draws every text and one
  that throws on every text.
\<close>

definition store_of_lines :: "nat \<Rightarrow> store" where
  "store_of_lines n =
     updateBlock ''a''
       \<lparr>u_id = None, u_subtitle = None, u_codeType = Some ''barcode'',
        u_qrErrorCorrection = None, u_barcodeFormat = Some ''EAN13'', u_sizeOverride = None,
        u_content = Some (concat (replicate n (''1'' @ [LF])))\<rparr>
       (AppStore_new ''a'')"

definition mixed_store :: store where
  "mixed_store =
     updateBlock ''a''
       \<lparr>u_id = None, u_subtitle = None, u_codeType = Some ''barcode'',
        u_qrErrorCorrection = None, u_barcodeFormat = Some ''EAN13'', u_sizeOverride = None,
        u_content = Some (''123456789012'' @ [LF] @ concat (replicate 49 (''1'' @ [LF])))\<rparr>
       (AppStore_new ''a'')"

definition ean_block :: block where
  "ean_block = (createNewBlock ''a'')\<lparr>codeType := ''barcode'', barcodeFormat := ''EAN13'',
     content := ''123456789012'' @ [LF] @ ''12345678901''\<rparr>"

definition drawing_always :: jsbarcode_lib where
  "drawing_always t c = Inr ''picture''"

definition drawing_never :: jsbarcode_lib where
  "drawing_never t c = Inl ''no''"

text \<open>
  A block whose subtitle needs quoting in CSV, and a block whose content ends with a line
  feed.
\<close>

definition quoted_block :: block where
  "quoted_block = (createNewBlock ''b'')\<lparr>subtitle := ''x, y'', content := ''hello''\<rparr>"

definition newline_block :: block where
  "newline_block = (createNewBlock ''a'')\<lparr>content := ''a'' @ [LF]\<rparr>"

definition empty_acc :: gen_acc where
  "empty_acc = \<lparr>gen_codes = [], gen_errors = [], gen_calls = []\<rparr>"

text \<open>A store whose only block is the EAN13 block above.\<close>

definition ean_store :: store where
  "ean_store =
     updateBlock ''a''
       \<lparr>u_id = None, u_subtitle = None, u_codeType = Some ''barcode'',
        u_qrErrorCorrection = None, u_barcodeFormat = Some ''EAN13'', u_sizeOverride = None,
        u_content = Some (''123456789012'' @ [LF] @ ''12345678901'')\<rparr>
       (AppStore_new ''a'')"

text \<open>
  Two blocks whose subtitles are \<open>CodeType\<close> and \<open>Content\<close>: the first row of their
  export contains both words.
\<close>

definition header_blocks :: "block list" where
  "header_blocks = [(createNewBlock ''a'')\<lparr>subtitle := ''CodeType'', content := ''x''\<rparr>,
                    (createNewBlock ''b'')\<lparr>subtitle := ''Content'', content := ''y''\<rparr>]"


section \<open>Properties of content splitting\<close>


lemma js_join_Cons_char: "js_join d ((c # p) # ps) = c # js_join d (p # ps)"
  by (cases ps) auto

lemma js_join_Nil_Cons: "ps \<noteq> [] \<Longrightarrow> js_join d ([] # ps) = d @ js_join d ps"
  by (cases ps) auto










section \<open>Properties of barcode format validation\<close>

lemma char_range_cases:
  assumes "lo \<le> (of_char c :: nat)" "(of_char c :: nat) < hi"
  shows "c \<in> set (map char_of [lo..<hi])"
proof -
  have "c = char_of (of_char c :: nat)" by simp
  moreover have "(of_char c :: nat) \<in> set [lo..<hi]" using assms by simp
  ultimately show ?thesis unfolding set_map by (rule image_eqI)
qed

lemma digits_upt: "map char_of [0x30..<0x3A::nat] = ''0123456789''"
  by code_simp

lemma capitals_upt: "map char_of [0x41..<0x5B::nat] = ''ABCDEFGHIJKLMNOPQRSTUVWXYZ''"
  by code_simp

lemma is_digit_iff: "is_digit c \<longleftrightarrow> c \<in> set ''0123456789''"
proof
  assume "is_digit c"
  then have "c \<in> set (map char_of [0x30..<0x3A::nat])"
    unfolding is_digit_def by (intro char_range_cases) auto
  then show "c \<in> set ''0123456789''" by (simp only: digits_upt)
next
  assume "c \<in> set ''0123456789''"
  then show "is_digit c" by (auto simp: is_digit_def)
qed

lemma upper_iff: "(0x41 \<le> (of_char c :: nat) \<and> (of_char c :: nat) \<le> 0x5A) \<longleftrightarrow> c \<in> set ''ABCDEFGHIJKLMNOPQRSTUVWXYZ''"
proof
  assume "0x41 \<le> (of_char c :: nat) \<and> (of_char c :: nat) \<le> 0x5A"
  then have "c \<in> set (map char_of [0x41..<0x5B::nat])"
    by (intro char_range_cases) auto
  then show "c \<in> set ''ABCDEFGHIJKLMNOPQRSTUVWXYZ''" by (simp only: capitals_upt)
next
  assume "c \<in> set ''ABCDEFGHIJKLMNOPQRSTUVWXYZ''"
  then show "0x41 \<le> (of_char c :: nat) \<and> (of_char c :: nat) \<le> 0x5A" by auto
qed

lemma code39_char_iff: "code39_char c \<longleftrightarrow> c \<in> set ''ABCDEFGHIJKLMNOPQRSTUVWXYZ0123456789-. $/+%''"
proof -
  have "code39_char c \<longleftrightarrow> c \<in> set ''ABCDEFGHIJKLMNOPQRSTUVWXYZ'' \<or> c \<in> set ''0123456789'' \<or> c \<in> set ''-. $/+%''"
    unfolding code39_char_def upper_iff is_digit_iff by auto
  then show ?thesis by auto
qed

text \<open>
  Claim C6, as the code has it. CODE128 accepts exactly the strings of printable ASCII;
  EAN13 and JAN accept exactly the digit strings of length 12 or 13; CODE39 accepts
  exactly the strings whose upper-casing stays in its alphabet; ITF accepts exactly the
  non-empty digit strings of even length; any other format is invalid.
\<close>

theorem validateBarcodeFormat_rules:
  "(valid (validateBarcodeFormat text ''CODE128'') \<longleftrightarrow>
      (\<forall>c\<in>set text. 0x20 \<le> (of_char c :: nat) \<and> (of_char c :: nat) \<le> 0x7E))
   \<and> ((format = ''EAN13'' \<or> format = ''JAN'') \<longrightarrow>
        (valid (validateBarcodeFormat text format) \<longleftrightarrow>
           (\<forall>c\<in>set text. c \<in> set ''0123456789'') \<and> (length text = 12 \<or> length text = 13)))
   \<and> (valid (validateBarcodeFormat text ''CODE39'') \<longleftrightarrow>
        (\<forall>c\<in>set (toUpperCase text). c \<in> set ''ABCDEFGHIJKLMNOPQRSTUVWXYZ0123456789-. $/+%''))
   \<and> (valid (validateBarcodeFormat text ''ITF'') \<longleftrightarrow>
        text \<noteq> [] \<and> (\<forall>c\<in>set text. c \<in> set ''0123456789'') \<and> even (length text))
   \<and> (format \<notin> {''CODE128'', ''EAN13'', ''JAN'', ''CODE39'', ''ITF''} \<longrightarrow>
        \<not> valid (validateBarcodeFormat text format))"
proof -
  have a: "valid (validateBarcodeFormat text ''CODE128'') \<longleftrightarrow>
      (\<forall>c\<in>set text. 0x20 \<le> (of_char c :: nat) \<and> (of_char c :: nat) \<le> 0x7E)"
    by (simp add: validateBarcodeFormat_def isAscii_def invalid_def list_all_iff)
  have num: "isNumeric text \<longleftrightarrow> text \<noteq> [] \<and> (\<forall>c\<in>set text. c \<in> set ''0123456789'')"
    unfolding isNumeric_def list_all_iff is_digit_iff by simp
  have b: "(format = ''EAN13'' \<or> format = ''JAN'') \<longrightarrow>
       (valid (validateBarcodeFormat text format) \<longleftrightarrow>
          (\<forall>c\<in>set text. c \<in> set ''0123456789'') \<and> (length text = 12 \<or> length text = 13))"
    unfolding validateBarcodeFormat_def invalid_def num by auto
  have c: "valid (validateBarcodeFormat text ''CODE39'') \<longleftrightarrow>
        (\<forall>c\<in>set (toUpperCase text). c \<in> set ''ABCDEFGHIJKLMNOPQRSTUVWXYZ0123456789-. $/+%'')"
    unfolding validateBarcodeFormat_def invalid_def isCode39Compatible_def list_all_iff
      code39_char_iff by simp
  have d: "valid (validateBarcodeFormat text ''ITF'') \<longleftrightarrow>
        text \<noteq> [] \<and> (\<forall>c\<in>set text. c \<in> set ''0123456789'') \<and> even (length text)"
    unfolding validateBarcodeFormat_def invalid_def num by (simp add: even_iff_mod_2_eq_zero)
  have e: "format \<notin> {''CODE128'', ''EAN13'', ''JAN'', ''CODE39'', ''ITF''} \<longrightarrow>
        \<not> valid (validateBarcodeFormat text format)"
    by (simp add: validateBarcodeFormat_def invalid_def)
  from a b c d e show ?thesis by blast
qed

theorem validateBarcodeFormat_rules_witness:
  "valid (validateBarcodeFormat ''123456789012'' ''EAN13'')
   \<and> \<not> valid (validateBarcodeFormat ''123456789012'' ''UPC'')
   \<and> valid (validateBarcodeFormat ''123456789012'' ''ITF'')
   \<and> valid (validateBarcodeFormat ''123456789012'' ''CODE128'')"
  using validateBarcodeFormat_rules [of "''123456789012''" "''EAN13''"]
    validateBarcodeFormat_rules [of "''123456789012''" "''UPC''"]
  by simp

text \<open>
  The claim as stated fails for ITF at the empty string: it has even length and no
  character that is not a digit, and the code rejects it.
\<close>

theorem validateBarcodeFormat_itf_empty_counterexample:
  "\<not> (valid (validateBarcodeFormat [] ''ITF'') \<longleftrightarrow>
        ((\<forall>c\<in>set ([] :: string). c \<in> set ''0123456789'') \<and> even (length ([] :: string))))"
  by (simp add: validateBarcodeFormat_def isNumeric_def invalid_def)

section \<open>Properties of the store\<close>

lemma recordHistory_eq:
  assumes "- 1 \<le> historyIndex s"
  shows "recordHistory s =
     (let h = take (nat (historyIndex s + 1)) (history s)
                @ [\<lparr>snap_blocks = blocks (state s), snap_settings = settings (state s)\<rparr>]
      in if length h > 20 then s\<lparr>history := tl h\<rparr>
         else s\<lparr>history := h, historyIndex := historyIndex s + 1\<rparr>)"
  using assms by (simp add: recordHistory_def js_slice0_def deepClone_def MAX_HISTORY_def Let_def)

lemma recordHistory_ok:
  assumes "history_ok s"
  shows "history_ok (recordHistory s)"
proof -
  have i: "- 1 \<le> historyIndex s" using assms by (simp add: history_ok_def)
  show ?thesis
    using assms unfolding recordHistory_eq [OF i] history_ok_def MAX_HISTORY_def Let_def
    by (auto simp: min_def)
qed

lemma recordHistory_state [simp]: "state (recordHistory s) = state s"
  by (simp add: recordHistory_def Let_def)

lemma setState_ok: "history_ok s \<Longrightarrow> history_ok (setState u r s)"
  using recordHistory_ok [of s] by (simp add: setState_def history_ok_def Let_def)

lemma restore_ok: "history_ok s \<Longrightarrow> restore i s = Inr s' \<Longrightarrow> history_ok s'"
  by (auto simp: restore_def history_ok_def Let_def split: if_splits)

lemma apply_op_ok: "history_ok s \<Longrightarrow> apply_op c s = Inr s' \<Longrightarrow> history_ok s'"
proof (cases c)
  case (ReorderBlocks f t)
  assume "history_ok s" "apply_op c s = Inr s'"
  then show ?thesis using ReorderBlocks
    by (auto simp: reorderBlocks_def Let_def setState_ok split: if_splits)
next
  case (Reset u)
  assume "history_ok s" "apply_op c s = Inr s'"
  then show ?thesis using Reset by (auto simp: reset_def history_ok_def)
next
  case Undo
  assume "history_ok s" "apply_op c s = Inr s'"
  then show ?thesis using Undo by (auto simp: undo_def restore_ok split: if_splits)
next
  case Redo
  assume "history_ok s" "apply_op c s = Inr s'"
  then show ?thesis using Redo by (auto simp: redo_def restore_ok split: if_splits)
qed (auto simp: addBlock_def removeBlock_def updateBlock_def duplicateBlock_def updateSettings_def
      setGeneratedCodes_def setErrors_def setGenerating_def setProgress_def setMode_def fromJSON_def
      setState_ok Let_def split: option.splits)

lemma run_ok: "history_ok s \<Longrightarrow> run cs s = Inr s' \<Longrightarrow> history_ok s'"
proof (induction cs arbitrary: s)
  case Nil
  then show ?case by simp
next
  case (Cons c cs)
  then show ?case by (auto split: sum.splits dest: apply_op_ok)
qed

lemma new_ok: "history_ok (AppStore_new u)"
  by (simp add: AppStore_new_def history_ok_def)


text \<open>
  Claim C9. In every store reached from a new store, \<open>recordHistory\<close> keeps the
  snapshots at the indices 0 to the cursor, appends the current blocks and settings, and
  then drops the oldest snapshot and keeps the cursor when there are more than 20, and
  advances the cursor otherwise; a recording \<open>setState\<close> does this before it
  changes the state. The snapshot sequence never holds more than 20 entries, and the
  cursor stays between -1 and the last index.
\<close>

theorem recordHistory_bounded:
  assumes "run cs (AppStore_new uuid) = Inr s"
  shows "recordHistory s =
           (let h = take (nat (historyIndex s + 1)) (history s)
                      @ [\<lparr>snap_blocks = blocks (state s), snap_settings = settings (state s)\<rparr>]
            in if length h > 20 then s\<lparr>history := tl h\<rparr>
               else s\<lparr>history := h, historyIndex := historyIndex s + 1\<rparr>)
         \<and> setState u True s = (recordHistory s)\<lparr>state := spread_state (state s) u\<rparr>
         \<and> length (history s) \<le> 20
         \<and> length (history (recordHistory s)) \<le> 20
         \<and> - 1 \<le> historyIndex s \<and> historyIndex s < int (length (history s))"
proof -
  have ok: "history_ok s" using new_ok assms by (rule run_ok)
  then have i: "- 1 \<le> historyIndex s" by (simp add: history_ok_def)
  have b1: "length (history s) \<le> 20" "historyIndex s < int (length (history s))"
    using ok by (simp_all add: history_ok_def MAX_HISTORY_def)
  have "history_ok (recordHistory s)" using ok by (rule recordHistory_ok)
  then have b2: "length (history (recordHistory s)) \<le> 20"
    by (simp add: history_ok_def MAX_HISTORY_def)
  have st: "setState u True s = (recordHistory s)\<lparr>state := spread_state (state s) u\<rparr>"
    by (simp add: setState_def Let_def)
  from recordHistory_eq [OF i] st b1 b2 i show ?thesis by blast
qed

theorem recordHistory_bounded_witness:
  "run [AddBlock ''b'', Undo] (AppStore_new ''a'') = Inr (addBlock ''b'' (AppStore_new ''a''))
   \<and> length (history (addBlock ''b'' (AppStore_new ''a''))) = 1
   \<and> historyIndex (addBlock ''b'' (AppStore_new ''a'')) = 0
   \<and> length (history (recordHistory (addBlock ''b'' (AppStore_new ''a'')))) = 2
   \<and> historyIndex (recordHistory (addBlock ''b'' (AppStore_new ''a''))) = 1"
proof -
  let ?s = "addBlock ''b'' (AppStore_new ''a'')"
  have r: "run [AddBlock ''b'', Undo] (AppStore_new ''a'') = Inr ?s"
    by code_simp
  have v: "length (history ?s) = 1" "historyIndex ?s = 0"
    "length (history (recordHistory ?s)) = 2" "historyIndex (recordHistory ?s) = 1"
    by code_simp+
  show ?thesis using recordHistory_bounded [OF r] r v by simp
qed

text \<open>
  Extra X3. In every store reached from a new store, \<open>undo\<close> and \<open>redo\<close> return
  normally: the snapshot they read is inside the sequence.
\<close>

theorem undo_redo_return:
  assumes "run cs (AppStore_new uuid) = Inr s"
  shows "(\<exists>s'. undo s = Inr s') \<and> (\<exists>s'. redo s = Inr s')"
proof -
  have "history_ok s" using new_ok assms by (rule run_ok)
  then show ?thesis
    by (auto simp: history_ok_def undo_def redo_def restore_def canUndo_def canRedo_def Let_def)
qed

theorem undo_redo_return_witness:
  "run [AddBlock ''b'', AddBlock ''c''] (AppStore_new ''a'')
     = Inr (addBlock ''c'' (addBlock ''b'' (AppStore_new ''a'')))
   \<and> (\<exists>s'. undo (addBlock ''c'' (addBlock ''b'' (AppStore_new ''a''))) = Inr s')
   \<and> (\<exists>s'. redo (addBlock ''c'' (addBlock ''b'' (AppStore_new ''a''))) = Inr s')"
proof -
  have r: "run [AddBlock ''b'', AddBlock ''c''] (AppStore_new ''a'')
     = Inr (addBlock ''c'' (addBlock ''b'' (AppStore_new ''a'')))"
    by simp
  show ?thesis using undo_redo_return [OF r] r by simp
qed

text \<open>
  Claim C1 at a failing input. A new store with block \<open>a\<close>, then two blocks added: the
  blocks are \<open>a, b, c\<close>, the cursor is 1 and one snapshot is undo-reachable. One undo and
  one redo end with the blocks \<open>a, b\<close>: the state before the undo was never recorded,
  so redo cannot bring it back.
\<close>

theorem undo_redo_loses_last_edit:
  "map_sum id (\<lambda>s. (map id' (blocks (state s)), historyIndex s, canUndo s))
      (run [AddBlock ''b'', AddBlock ''c''] (AppStore_new ''a''))
     = Inr ([''a'', ''b'', ''c''], 1, True)
   \<and> map_sum id (\<lambda>s. map id' (blocks (state s)))
      (run [AddBlock ''b'', AddBlock ''c'', Undo, Redo] (AppStore_new ''a''))
     = Inr [''a'', ''b'']"
  by code_simp

text \<open>
  Claim C3 at a failing input. \<open>fromJSON\<close> with a record whose \<open>blocks\<close> is the empty
  array leaves a live state with no block: the empty array is truthy, so the default
  block is not used.
\<close>

theorem fromJSON_empty_blocks:
  "blocks (state (fromJSON \<lparr>j_blocks = Some [], j_globalSettings = None\<rparr> ''z''
     (AppStore_new ''a''))) = []"
  by code_simp

section \<open>Properties of code generation\<close>

lemma countItems_foldl:
  "foldl (\<lambda>totalCount b.
              if js_trim (content b) \<noteq> [] then totalCount + length (parseContent (content b) delim)
              else totalCount) n bs = n + sum_list (map (itemCount delim) bs)"
  by (induction bs arbitrary: n) (auto simp: itemCount_def)

lemma countItems_sum: "countItems delim bs = sum_list (map (itemCount delim) bs)"
  by (simp add: countItems_def countItems_foldl)

text \<open>
  Claim C8. With the total item count summed over the blocks (a blank block counts zero):
  \<open>generateCodes\<close> takes the worker path exactly when the total is at least 50 and
  a worker exists; a total of 49 goes the direct path; a total of 50 with a worker posts
  the blocks and settings to the worker; without a worker the direct path is taken
  whatever the total.
\<close>

theorem generateCodes_delegates:
  fixes s :: store and worker :: "'w option"
  defines "totalItems \<equiv> sum_list (map (itemCount (getDelimiter (delimiter (settings (state s)))
                       (customDelimiter (settings (state s))))) (blocks (state s)))"
  shows "(delegated (generateCodes qr bc worker calls s) \<longleftrightarrow> totalItems \<ge> 50 \<and> worker \<noteq> None)
     \<and> (totalItems = 49 \<longrightarrow> \<not> delegated (generateCodes qr bc worker calls s))
     \<and> (totalItems = 50 \<and> worker \<noteq> None \<longrightarrow>
          generateCodes qr bc worker calls s
            = Delegated (setGenerating True s)
                \<lparr>msg_blocks = blocks (state s), msg_settings = settings (state s)\<rparr>)
     \<and> (worker = None \<longrightarrow> \<not> delegated (generateCodes qr bc worker calls s))"
  unfolding totalItems_def
  by (auto simp: generateCodes_def Let_def countItems_sum delegated_def PROGRESS_THRESHOLD_def
        generateWithWorker_def)


theorem generateCodes_delegates_witness:
  "delegated (generateCodes None None (Some ()) [] (store_of_lines 50))
   \<and> \<not> delegated (generateCodes None None (Some ()) [] (store_of_lines 49))
   \<and> \<not> delegated (generateCodes None None (None :: unit option) [] (store_of_lines 50))"
proof -
  have n50: "sum_list (map (itemCount (getDelimiter (delimiter (settings (state (store_of_lines 50))))
                       (customDelimiter (settings (state (store_of_lines 50))))))
               (blocks (state (store_of_lines 50)))) = 50"
    by code_simp
  have n49: "sum_list (map (itemCount (getDelimiter (delimiter (settings (state (store_of_lines 49))))
                       (customDelimiter (settings (state (store_of_lines 49))))))
               (blocks (state (store_of_lines 49)))) = 49"
    by code_simp
  show ?thesis
    using generateCodes_delegates [of None None "Some ()" "[]" "store_of_lines 50"]
      generateCodes_delegates [of None None "Some ()" "[]" "store_of_lines 49"]
      generateCodes_delegates [of None None "None :: unit option" "[]" "store_of_lines 50"]
    by (simp only: n50 n49) simp
qed

lemma encodeItem_counter: "snd (encodeItem qr bc b bi txt st) = snd st + 1"
  by (simp add: encodeItem_def Let_def split: prod.split option.split)

lemma encodeItem_one_record:
  "(\<exists>c. gen_codes (fst (encodeItem qr bc b bi txt st)) = gen_codes (fst st) @ [c]
         \<and> code_index c = snd st
         \<and> gen_errors (fst (encodeItem qr bc b bi txt st)) = gen_errors (fst st))
   \<or> (\<exists>e. gen_errors (fst (encodeItem qr bc b bi txt st)) = gen_errors (fst st) @ [e]
         \<and> err_lineNumber e = snd st
         \<and> gen_codes (fst (encodeItem qr bc b bi txt st)) = gen_codes (fst st))"
  by (simp add: encodeItem_def Let_def split: prod.split option.split)

lemma encodeItems_numbering:
  "\<exists>cs es.
     gen_codes (fst (foldl (\<lambda>st txt. encodeItem qr bc b bi txt st) st items)) = gen_codes (fst st) @ cs
     \<and> gen_errors (fst (foldl (\<lambda>st txt. encodeItem qr bc b bi txt st) st items)) = gen_errors (fst st) @ es
     \<and> length cs + length es = length items
     \<and> set (map code_index cs) \<union> set (map err_lineNumber es) = {snd st ..< snd st + length items}
     \<and> snd (foldl (\<lambda>st txt. encodeItem qr bc b bi txt st) st items) = snd st + length items"
proof (induction items arbitrary: st)
  case Nil
  then show ?case by simp
next
  case (Cons x items)
  let ?st1 = "encodeItem qr bc b bi x st"
  from Cons.IH [of ?st1] obtain cs es where
    ih: "gen_codes (fst (foldl (\<lambda>st txt. encodeItem qr bc b bi txt st) ?st1 items)) = gen_codes (fst ?st1) @ cs"
      "gen_errors (fst (foldl (\<lambda>st txt. encodeItem qr bc b bi txt st) ?st1 items)) = gen_errors (fst ?st1) @ es"
      "length cs + length es = length items"
      "set (map code_index cs) \<union> set (map err_lineNumber es) = {snd ?st1 ..< snd ?st1 + length items}"
      "snd (foldl (\<lambda>st txt. encodeItem qr bc b bi txt st) ?st1 items) = snd ?st1 + length items"
    by blast
  have n: "snd ?st1 = snd st + 1" by (rule encodeItem_counter)
  have range: "{snd st ..< snd st + length (x # items)}
                 = insert (snd st) {snd st + 1 ..< snd st + 1 + length items}"
    by auto
  from encodeItem_one_record [of qr bc b bi x st] show ?case
  proof
    assume "\<exists>c. gen_codes (fst ?st1) = gen_codes (fst st) @ [c] \<and> code_index c = snd st
               \<and> gen_errors (fst ?st1) = gen_errors (fst st)"
    then obtain c where c: "gen_codes (fst ?st1) = gen_codes (fst st) @ [c]" "code_index c = snd st"
      "gen_errors (fst ?st1) = gen_errors (fst st)" by blast
    show ?thesis
      apply (rule exI [of _ "c # cs"], rule exI [of _ es])
      using ih c n range by simp
  next
    assume "\<exists>e. gen_errors (fst ?st1) = gen_errors (fst st) @ [e] \<and> err_lineNumber e = snd st
               \<and> gen_codes (fst ?st1) = gen_codes (fst st)"
    then obtain e where e: "gen_errors (fst ?st1) = gen_errors (fst st) @ [e]" "err_lineNumber e = snd st"
      "gen_codes (fst ?st1) = gen_codes (fst st)" by blast
    show ?thesis
      apply (rule exI [of _ cs], rule exI [of _ "e # es"])
      using ih e n range by simp
  qed
qed


lemma generateBlock_numbering:
  "\<exists>cs es.
     gen_codes (generateBlock qr bc delim acc (b, bi)) = gen_codes acc @ cs
     \<and> gen_errors (generateBlock qr bc delim acc (b, bi)) = gen_errors acc @ es
     \<and> length cs + length es = itemCount delim b
     \<and> set (map code_index cs) \<union> set (map err_lineNumber es) = {1 ..< 1 + itemCount delim b}"
proof (cases "js_trim (content b) = []")
  case True
  then show ?thesis by (simp add: generateBlock_def itemCount_def)
next
  case False
  let ?r = "foldl (\<lambda>st txt. encodeItem qr bc b bi txt st) (acc, 1) (parseContent (content b) delim)"
  from encodeItems_numbering [of qr bc b bi "(acc, 1)" "parseContent (content b) delim"]
  obtain cs es where
    r: "gen_codes (fst ?r) = gen_codes acc @ cs" "gen_errors (fst ?r) = gen_errors acc @ es"
      "length cs + length es = length (parseContent (content b) delim)"
      "set (map code_index cs) \<union> set (map err_lineNumber es)
         = {1 ..< 1 + length (parseContent (content b) delim)}"
    by auto
  have g: "generateBlock qr bc delim acc (b, bi) = fst ?r"
    using False by (simp add: generateBlock_def)
  have n: "itemCount delim b = length (parseContent (content b) delim)"
    using False by (simp add: itemCount_def)
  show ?thesis unfolding g n using r by blast
qed

text \<open>
  Records are only ever appended: what one item has recorded stays in the result of the
  block and of the run.
\<close>

lemma encodeItem_keeps:
  "set (gen_codes (fst st)) \<subseteq> set (gen_codes (fst (encodeItem qr bc b bi t st)))
   \<and> set (gen_errors (fst st)) \<subseteq> set (gen_errors (fst (encodeItem qr bc b bi t st)))"
  using encodeItem_one_record [of qr bc b bi t st] by auto

lemma encodeItems_keeps:
  "set (gen_codes (fst st))
     \<subseteq> set (gen_codes (fst (foldl (\<lambda>st t. encodeItem qr bc b bi t st) st items)))
   \<and> set (gen_errors (fst st))
     \<subseteq> set (gen_errors (fst (foldl (\<lambda>st t. encodeItem qr bc b bi t st) st items)))"
proof (induction items arbitrary: st)
  case Nil
  then show ?case by simp
next
  case (Cons x items)
  from encodeItem_keeps [of st qr bc b bi x] Cons [of "encodeItem qr bc b bi x st"]
  show ?case by auto
qed

lemma generateBlock_keeps:
  "set (gen_codes acc) \<subseteq> set (gen_codes (generateBlock qr bc delim acc x))
   \<and> set (gen_errors acc) \<subseteq> set (gen_errors (generateBlock qr bc delim acc x))"
  using encodeItems_keeps [of "(acc, 1)" qr bc "fst x" "snd x"]
  by (simp add: generateBlock_def Let_def)

lemma generateBlocks_keeps:
  "set (gen_codes acc) \<subseteq> set (gen_codes (foldl (generateBlock qr bc delim) acc xs))
   \<and> set (gen_errors acc) \<subseteq> set (gen_errors (foldl (generateBlock qr bc delim) acc xs))"
proof (induction xs arbitrary: acc)
  case Nil
  then show ?case by simp
next
  case (Cons x xs)
  from generateBlock_keeps [of acc qr bc delim x] Cons [of "generateBlock qr bc delim acc x"]
  show ?case by auto
qed

lemma with_index_split:
  assumes "k < length bs"
  obtains pre post where "with_index bs = pre @ (bs ! k, k) # post"
proof -
  have l: "k < length (with_index bs)" using assms by (simp add: with_index_def)
  have "with_index bs ! k = (bs ! k, k)" using assms by (simp add: with_index_def)
  then have "with_index bs = take k (with_index bs) @ (bs ! k, k) # drop (Suc k) (with_index bs)"
    using id_take_nth_drop [OF l] by simp
  then show thesis by (rule that)
qed

lemma item_reached:
  assumes k: "k < length bs" and nb: "js_trim (content (bs ! k)) \<noteq> []"
    and j: "j < length (parseContent (content (bs ! k)) delim)"
  shows "\<exists>acc'.
     set (gen_codes (fst (encodeItem qr bc (bs ! k) k
            (parseContent (content (bs ! k)) delim ! j) (acc', j + 1))))
       \<subseteq> set (gen_codes (generateDirect qr bc delim calls bs))
     \<and> set (gen_errors (fst (encodeItem qr bc (bs ! k) k
            (parseContent (content (bs ! k)) delim ! j) (acc', j + 1))))
       \<subseteq> set (gen_errors (generateDirect qr bc delim calls bs))"
proof -
  let ?b = "bs ! k" and ?items = "parseContent (content (bs ! k)) delim"
  let ?enc = "\<lambda>st t. encodeItem qr bc ?b k t st"
  let ?acc0 = "\<lparr>gen_codes = [], gen_errors = [], gen_calls = calls\<rparr>"
  from with_index_split [OF k] obtain pre post
    where w: "with_index bs = pre @ (?b, k) # post" by blast
  let ?accK = "foldl (generateBlock qr bc delim) ?acc0 pre"
  let ?st = "foldl ?enc (?accK, 1) (take j ?items)"
  have items: "?items = take j ?items @ ?items ! j # drop (Suc j) ?items"
    using j by (rule id_take_nth_drop)
  have n: "snd ?st = j + 1"
    using encodeItems_numbering [of qr bc ?b k "(?accK, 1)" "take j ?items"] j by auto
  define acc' where "acc' = fst ?st"
  have st: "?st = (acc', j + 1)" using n by (simp add: acc'_def prod_eq_iff)
  let ?r = "encodeItem qr bc ?b k (?items ! j) (acc', j + 1)"
  have "generateBlock qr bc delim ?accK (?b, k) = fst (foldl ?enc (?accK, 1) ?items)"
    using nb by (simp add: generateBlock_def Let_def)
  also have "foldl ?enc (?accK, 1) ?items
               = foldl ?enc (?accK, 1) (take j ?items @ ?items ! j # drop (Suc j) ?items)"
    using items by simp
  also have "\<dots> = foldl ?enc (encodeItem qr bc ?b k (?items ! j) ?st) (drop (Suc j) ?items)"
    by (simp only: foldl_append foldl_Cons)
  also have "\<dots> = foldl ?enc ?r (drop (Suc j) ?items)"
    by (simp only: st)
  finally have blk: "generateBlock qr bc delim ?accK (?b, k)
                      = fst (foldl ?enc ?r (drop (Suc j) ?items))" .
  have all: "generateDirect qr bc delim calls bs
               = foldl (generateBlock qr bc delim) (generateBlock qr bc delim ?accK (?b, k)) post"
    by (simp add: generateDirect_def w)
  have 1: "set (gen_codes (fst ?r)) \<subseteq> set (gen_codes (generateBlock qr bc delim ?accK (?b, k)))"
    unfolding blk using encodeItems_keeps [of ?r qr bc ?b k "drop (Suc j) ?items"] by (rule conjunct1)
  have 2: "set (gen_errors (fst ?r)) \<subseteq> set (gen_errors (generateBlock qr bc delim ?accK (?b, k)))"
    unfolding blk using encodeItems_keeps [of ?r qr bc ?b k "drop (Suc j) ?items"] by (rule conjunct2)
  have 3: "set (gen_codes (generateBlock qr bc delim ?accK (?b, k)))
             \<subseteq> set (gen_codes (generateDirect qr bc delim calls bs))"
    unfolding all
    using generateBlocks_keeps [of "generateBlock qr bc delim ?accK (?b, k)" qr bc delim post]
    by (rule conjunct1)
  have 4: "set (gen_errors (generateBlock qr bc delim ?accK (?b, k)))
             \<subseteq> set (gen_errors (generateDirect qr bc delim calls bs))"
    unfolding all
    using generateBlocks_keeps [of "generateBlock qr bc delim ?accK (?b, k)" qr bc delim post]
    by (rule conjunct2)
  have "set (gen_codes (fst ?r)) \<subseteq> set (gen_codes (generateDirect qr bc delim calls bs))"
    using 1 3 by (rule subset_trans)
  moreover have "set (gen_errors (fst ?r)) \<subseteq> set (gen_errors (generateDirect qr bc delim calls bs))"
    using 2 4 by (rule subset_trans)
  ultimately show ?thesis by blast
qed


lemma barcode_item_invalid:
  assumes "codeType b \<noteq> ''qr''" "\<not> valid (validateBarcodeFormat t (barcodeFormat b))"
  shows "encodeItem qr bc b bi t (acc, n) =
          (acc\<lparr>gen_errors := gen_errors acc @
              [\<lparr>err_blockId = id' b, err_lineNumber = n, err_text = t,
                errorType = ''validation_failed'',
                err_message = error (validateBarcodeFormat t (barcodeFormat b))\<rparr>]\<rparr>,
           n + 1)"
  using assms by (simp add: encodeItem_def Let_def)

lemma barcode_item_no_library:
  assumes "codeType b \<noteq> ''qr''" "valid (validateBarcodeFormat t (barcodeFormat b))"
  shows "encodeItem qr None b bi t (acc, n) =
          (acc\<lparr>gen_errors := gen_errors acc @
              [\<lparr>err_blockId = id' b, err_lineNumber = n, err_text = t,
                errorType = ''generation_failed'',
                err_message = Some MsgBarcodeLibMissing\<rparr>]\<rparr>,
           n + 1)"
  using assms
  by (simp add: encodeItem_def Let_def BarcodeGenerator_generate_def invalid_def message_or_def)

lemma barcode_item_throws:
  assumes "codeType b \<noteq> ''qr''" "valid (validateBarcodeFormat t (barcodeFormat b))"
    "lib t (getFormatConfig (barcodeFormat b)) = Inl msg"
  shows "encodeItem qr (Some lib) b bi t (acc, n) =
          (acc\<lparr>gen_errors := gen_errors acc @
              [\<lparr>err_blockId = id' b, err_lineNumber = n, err_text = t,
                errorType = ''generation_failed'',
                err_message = Some (if msg = [] then MsgBarcodeFailed else MsgText msg)\<rparr>],
              gen_calls := gen_calls acc @ [BarcodeCall t (getFormatConfig (barcodeFormat b))]\<rparr>,
           n + 1)"
  using assms
  by (simp add: encodeItem_def Let_def BarcodeGenerator_generate_def invalid_def message_or_def)

lemma barcode_item_drawn:
  assumes "codeType b \<noteq> ''qr''" "valid (validateBarcodeFormat t (barcodeFormat b))"
    "lib t (getFormatConfig (barcodeFormat b)) = Inr picture"
  shows "encodeItem qr (Some lib) b bi t (acc, n) =
          (acc\<lparr>gen_codes := gen_codes acc @
              [\<lparr>code_blockId = id' b, code_blockIndex = bi, code_index = n, code_text = t,
                code_type = ''barcode'',
                code_data = BarcodePayload
                  \<lparr>svg = Some picture, bc_size = getBarcodeSize (length t),
                   bc_validation = \<lparr>valid = True, error = None\<rparr>\<rparr>,
                code_size = (if sizeOverride b = ''auto'' then getBarcodeSize (length t)
                             else sizeOverride b),
                code_subtitle = Some (subtitle b)\<rparr>],
              gen_calls := gen_calls acc @ [BarcodeCall t (getFormatConfig (barcodeFormat b))]\<rparr>,
           n + 1)"
  using assms
  by (simp add: encodeItem_def Let_def BarcodeGenerator_generate_def)

lemma generateCodes_direct:
  assumes "\<not> delegated (generateCodes qr bc worker calls s)"
  shows "\<exists>s'. generateCodes qr bc worker calls s
            = Direct s' (generateDirect qr bc
                (getDelimiter (delimiter (settings (state s))) (customDelimiter (settings (state s))))
                calls (blocks (state s)))
         \<and> generatedCodes (state s')
            = gen_codes (generateDirect qr bc
                (getDelimiter (delimiter (settings (state s))) (customDelimiter (settings (state s))))
                calls (blocks (state s)))
         \<and> errors (state s')
            = gen_errors (generateDirect qr bc
                (getDelimiter (delimiter (settings (state s))) (customDelimiter (settings (state s))))
                calls (blocks (state s)))"
  using assms
  by (auto simp: generateCodes_def Let_def delegated_def generateWithWorker_def setErrors_def
        setGeneratedCodes_def setGenerating_def setState_def spread_state_def or_else_def
        no_updates_def split: if_splits)


lemma direct_path_records:
  assumes b: "codeType b \<noteq> ''qr''"
    and k: "k < length bs" "bs ! k = b" and nb: "js_trim (content b) \<noteq> []"
    and j: "j < length (parseContent (content b) delim)" "parseContent (content b) delim ! j = t"
  shows "\<not> valid (validateBarcodeFormat t (barcodeFormat b)) \<Longrightarrow>
           \<lparr>err_blockId = id' b, err_lineNumber = j + 1, err_text = t,
             errorType = ''validation_failed'',
             err_message = error (validateBarcodeFormat t (barcodeFormat b))\<rparr>
           \<in> set (gen_errors (generateDirect qr bc delim calls bs))"
    and "valid (validateBarcodeFormat t (barcodeFormat b)) \<Longrightarrow> bc = None \<Longrightarrow>
           \<lparr>err_blockId = id' b, err_lineNumber = j + 1, err_text = t,
             errorType = ''generation_failed'', err_message = Some MsgBarcodeLibMissing\<rparr>
           \<in> set (gen_errors (generateDirect qr bc delim calls bs))"
    and "valid (validateBarcodeFormat t (barcodeFormat b)) \<Longrightarrow> bc = Some lib \<Longrightarrow>
         lib t (getFormatConfig (barcodeFormat b)) = Inl msg \<Longrightarrow>
           \<lparr>err_blockId = id' b, err_lineNumber = j + 1, err_text = t,
             errorType = ''generation_failed'',
             err_message = Some (if msg = [] then MsgBarcodeFailed else MsgText msg)\<rparr>
           \<in> set (gen_errors (generateDirect qr bc delim calls bs))"
    and "valid (validateBarcodeFormat t (barcodeFormat b)) \<Longrightarrow> bc = Some lib \<Longrightarrow>
         lib t (getFormatConfig (barcodeFormat b)) = Inr picture \<Longrightarrow>
           \<lparr>code_blockId = id' b, code_blockIndex = k, code_index = j + 1, code_text = t,
             code_type = ''barcode'',
             code_data = BarcodePayload
               \<lparr>svg = Some picture, bc_size = getBarcodeSize (length t),
                bc_validation = \<lparr>valid = True, error = None\<rparr>\<rparr>,
             code_size = (if sizeOverride b = ''auto'' then getBarcodeSize (length t)
                          else sizeOverride b),
             code_subtitle = Some (subtitle b)\<rparr>
           \<in> set (gen_codes (generateDirect qr bc delim calls bs))"
proof -
  from item_reached [of k bs j delim qr bc calls] k nb j obtain acc' where
    c: "set (gen_codes (fst (encodeItem qr bc b k t (acc', j + 1))))
          \<subseteq> set (gen_codes (generateDirect qr bc delim calls bs))"
    and e: "set (gen_errors (fst (encodeItem qr bc b k t (acc', j + 1))))
          \<subseteq> set (gen_errors (generateDirect qr bc delim calls bs))"
    by auto
  {
    assume "\<not> valid (validateBarcodeFormat t (barcodeFormat b))"
    from barcode_item_invalid [OF b this, of qr bc k acc' "j + 1"] e
    show "\<lparr>err_blockId = id' b, err_lineNumber = j + 1, err_text = t,
             errorType = ''validation_failed'',
             err_message = error (validateBarcodeFormat t (barcodeFormat b))\<rparr>
           \<in> set (gen_errors (generateDirect qr bc delim calls bs))"
      by auto
  }
  {
    assume "valid (validateBarcodeFormat t (barcodeFormat b))" "bc = None"
    with barcode_item_no_library [OF b this(1), of qr k acc' "j + 1"] e
    show "\<lparr>err_blockId = id' b, err_lineNumber = j + 1, err_text = t,
             errorType = ''generation_failed'', err_message = Some MsgBarcodeLibMissing\<rparr>
           \<in> set (gen_errors (generateDirect qr bc delim calls bs))"
      by auto
  }
  {
    assume "valid (validateBarcodeFormat t (barcodeFormat b))" "bc = Some lib"
      "lib t (getFormatConfig (barcodeFormat b)) = Inl msg"
    with barcode_item_throws [where b = b and t = t and lib = lib and msg = msg and qr = qr
        and bi = k and acc = acc' and n = "j + 1"] b e
    show "\<lparr>err_blockId = id' b, err_lineNumber = j + 1, err_text = t,
             errorType = ''generation_failed'',
             err_message = Some (if msg = [] then MsgBarcodeFailed else MsgText msg)\<rparr>
           \<in> set (gen_errors (generateDirect qr bc delim calls bs))"
      by auto
  }
  {
    assume "valid (validateBarcodeFormat t (barcodeFormat b))" "bc = Some lib"
      "lib t (getFormatConfig (barcodeFormat b)) = Inr picture"
    with barcode_item_drawn [where b = b and t = t and lib = lib and picture = picture
        and qr = qr and bi = k and acc = acc' and n = "j + 1"] b c
    show "\<lparr>code_blockId = id' b, code_blockIndex = k, code_index = j + 1, code_text = t,
             code_type = ''barcode'',
             code_data = BarcodePayload
               \<lparr>svg = Some picture, bc_size = getBarcodeSize (length t),
                bc_validation = \<lparr>valid = True, error = None\<rparr>\<rparr>,
             code_size = (if sizeOverride b = ''auto'' then getBarcodeSize (length t)
                          else sizeOverride b),
             code_subtitle = Some (subtitle b)\<rparr>
           \<in> set (gen_codes (generateDirect qr bc delim calls bs))"
      by auto
  }
qed

text \<open>
  Claim C5. For an item of a barcode block on the direct path. When validation fails, the
  only change is one error \<open>validation_failed\<close> with the validator's message and the
  counter as line number; the log of library calls is unchanged: nothing is drawn. When
  validation passes and the barcode library is missing, the only change is one error
  \<open>generation_failed\<close>, and nothing is drawn either. When validation passes and the
  library throws, one error \<open>generation_failed\<close> with the thrown message is recorded
  after the call. When the library returns a picture, one code with the counter as index
  is recorded. Every item of every block moves the counter by one, and the numbers given
  out in a block are 1 to the number of its items, each once. These records reach the
  result of the run: for item \<open>j\<close> (from 0) of block \<open>k\<close> of the block list, the record
  with number \<open>j + 1\<close> is among the errors, respectively the codes, of
  \<open>generateDirect\<close>, and a run of \<open>generateCodes\<close> that does not delegate to the
  worker stores exactly the codes and the errors of \<open>generateDirect\<close>.
\<close>

theorem direct_path_barcode_item:
  fixes worker :: "'w option"
  assumes "codeType b \<noteq> ''qr''"
  shows
    "(\<not> valid (validateBarcodeFormat t (barcodeFormat b)) \<longrightarrow>
        encodeItem qr bc b bi t (acc, n) =
          (acc\<lparr>gen_errors := gen_errors acc @
              [\<lparr>err_blockId = id' b, err_lineNumber = n, err_text = t,
                errorType = ''validation_failed'',
                err_message = error (validateBarcodeFormat t (barcodeFormat b))\<rparr>]\<rparr>,
           n + 1))
     \<and> (valid (validateBarcodeFormat t (barcodeFormat b)) \<longrightarrow>
        encodeItem qr None b bi t (acc, n) =
          (acc\<lparr>gen_errors := gen_errors acc @
              [\<lparr>err_blockId = id' b, err_lineNumber = n, err_text = t,
                errorType = ''generation_failed'',
                err_message = Some MsgBarcodeLibMissing\<rparr>]\<rparr>,
           n + 1))
     \<and> (valid (validateBarcodeFormat t (barcodeFormat b))
        \<and> lib t (getFormatConfig (barcodeFormat b)) = Inl msg \<longrightarrow>
        encodeItem qr (Some lib) b bi t (acc, n) =
          (acc\<lparr>gen_errors := gen_errors acc @
              [\<lparr>err_blockId = id' b, err_lineNumber = n, err_text = t,
                errorType = ''generation_failed'',
                err_message = Some (if msg = [] then MsgBarcodeFailed else MsgText msg)\<rparr>],
              gen_calls := gen_calls acc @ [BarcodeCall t (getFormatConfig (barcodeFormat b))]\<rparr>,
           n + 1))
     \<and> (valid (validateBarcodeFormat t (barcodeFormat b))
        \<and> lib t (getFormatConfig (barcodeFormat b)) = Inr picture \<longrightarrow>
        encodeItem qr (Some lib) b bi t (acc, n) =
          (acc\<lparr>gen_codes := gen_codes acc @
              [\<lparr>code_blockId = id' b, code_blockIndex = bi, code_index = n, code_text = t,
                code_type = ''barcode'',
                code_data = BarcodePayload
                  \<lparr>svg = Some picture, bc_size = getBarcodeSize (length t),
                   bc_validation = \<lparr>valid = True, error = None\<rparr>\<rparr>,
                code_size = (if sizeOverride b = ''auto'' then getBarcodeSize (length t)
                             else sizeOverride b),
                code_subtitle = Some (subtitle b)\<rparr>],
              gen_calls := gen_calls acc @ [BarcodeCall t (getFormatConfig (barcodeFormat b))]\<rparr>,
           n + 1))
     \<and> snd (encodeItem qr bc b' bi t st) = snd st + 1
     \<and> (\<exists>cs es.
          gen_codes (generateBlock qr bc delim acc (b', bi)) = gen_codes acc @ cs
          \<and> gen_errors (generateBlock qr bc delim acc (b', bi)) = gen_errors acc @ es
          \<and> length cs + length es = itemCount delim b'
          \<and> set (map code_index cs) \<union> set (map err_lineNumber es) = {1 ..< 1 + itemCount delim b'})
     \<and> (k < length bs \<and> bs ! k = b \<and> js_trim (content b) \<noteq> []
        \<and> j < length (parseContent (content b) delim)
        \<and> parseContent (content b) delim ! j = t \<longrightarrow>
        (\<not> valid (validateBarcodeFormat t (barcodeFormat b)) \<longrightarrow>
           \<lparr>err_blockId = id' b, err_lineNumber = j + 1, err_text = t,
             errorType = ''validation_failed'',
             err_message = error (validateBarcodeFormat t (barcodeFormat b))\<rparr>
           \<in> set (gen_errors (generateDirect qr bc delim calls bs)))
        \<and> (valid (validateBarcodeFormat t (barcodeFormat b)) \<and> bc = None \<longrightarrow>
           \<lparr>err_blockId = id' b, err_lineNumber = j + 1, err_text = t,
             errorType = ''generation_failed'', err_message = Some MsgBarcodeLibMissing\<rparr>
           \<in> set (gen_errors (generateDirect qr bc delim calls bs)))
        \<and> (valid (validateBarcodeFormat t (barcodeFormat b)) \<and> bc = Some lib
             \<and> lib t (getFormatConfig (barcodeFormat b)) = Inl msg \<longrightarrow>
           \<lparr>err_blockId = id' b, err_lineNumber = j + 1, err_text = t,
             errorType = ''generation_failed'',
             err_message = Some (if msg = [] then MsgBarcodeFailed else MsgText msg)\<rparr>
           \<in> set (gen_errors (generateDirect qr bc delim calls bs)))
        \<and> (valid (validateBarcodeFormat t (barcodeFormat b)) \<and> bc = Some lib
             \<and> lib t (getFormatConfig (barcodeFormat b)) = Inr picture \<longrightarrow>
           \<lparr>code_blockId = id' b, code_blockIndex = k, code_index = j + 1, code_text = t,
             code_type = ''barcode'',
             code_data = BarcodePayload
               \<lparr>svg = Some picture, bc_size = getBarcodeSize (length t),
                bc_validation = \<lparr>valid = True, error = None\<rparr>\<rparr>,
             code_size = (if sizeOverride b = ''auto'' then getBarcodeSize (length t)
                          else sizeOverride b),
             code_subtitle = Some (subtitle b)\<rparr>
           \<in> set (gen_codes (generateDirect qr bc delim calls bs))))
     \<and> (\<not> delegated (generateCodes qr bc worker calls s) \<longrightarrow>
        (\<exists>s'. generateCodes qr bc worker calls s
            = Direct s' (generateDirect qr bc
                (getDelimiter (delimiter (settings (state s))) (customDelimiter (settings (state s))))
                calls (blocks (state s)))
         \<and> generatedCodes (state s')
            = gen_codes (generateDirect qr bc
                (getDelimiter (delimiter (settings (state s))) (customDelimiter (settings (state s))))
                calls (blocks (state s)))
         \<and> errors (state s')
            = gen_errors (generateDirect qr bc
                (getDelimiter (delimiter (settings (state s))) (customDelimiter (settings (state s))))
                calls (blocks (state s)))))"
proof -
  have a: "(\<not> valid (validateBarcodeFormat t (barcodeFormat b)) \<longrightarrow>
        encodeItem qr bc b bi t (acc, n) =
          (acc\<lparr>gen_errors := gen_errors acc @
              [\<lparr>err_blockId = id' b, err_lineNumber = n, err_text = t,
                errorType = ''validation_failed'',
                err_message = error (validateBarcodeFormat t (barcodeFormat b))\<rparr>]\<rparr>,
           n + 1))"
    using assms barcode_item_invalid by blast
  have b1: "(valid (validateBarcodeFormat t (barcodeFormat b)) \<longrightarrow>
        encodeItem qr None b bi t (acc, n) =
          (acc\<lparr>gen_errors := gen_errors acc @
              [\<lparr>err_blockId = id' b, err_lineNumber = n, err_text = t,
                errorType = ''generation_failed'',
                err_message = Some MsgBarcodeLibMissing\<rparr>]\<rparr>,
           n + 1))"
    using assms barcode_item_no_library by blast
  have b2: "(valid (validateBarcodeFormat t (barcodeFormat b))
        \<and> lib t (getFormatConfig (barcodeFormat b)) = Inl msg \<longrightarrow>
        encodeItem qr (Some lib) b bi t (acc, n) =
          (acc\<lparr>gen_errors := gen_errors acc @
              [\<lparr>err_blockId = id' b, err_lineNumber = n, err_text = t,
                errorType = ''generation_failed'',
                err_message = Some (if msg = [] then MsgBarcodeFailed else MsgText msg)\<rparr>],
              gen_calls := gen_calls acc @ [BarcodeCall t (getFormatConfig (barcodeFormat b))]\<rparr>,
           n + 1))"
    using barcode_item_throws [OF assms, where t = t and lib = lib and msg = msg] by blast
  have c: "(valid (validateBarcodeFormat t (barcodeFormat b))
        \<and> lib t (getFormatConfig (barcodeFormat b)) = Inr picture \<longrightarrow>
        encodeItem qr (Some lib) b bi t (acc, n) =
          (acc\<lparr>gen_codes := gen_codes acc @
              [\<lparr>code_blockId = id' b, code_blockIndex = bi, code_index = n, code_text = t,
                code_type = ''barcode'',
                code_data = BarcodePayload
                  \<lparr>svg = Some picture, bc_size = getBarcodeSize (length t),
                   bc_validation = \<lparr>valid = True, error = None\<rparr>\<rparr>,
                code_size = (if sizeOverride b = ''auto'' then getBarcodeSize (length t)
                             else sizeOverride b),
                code_subtitle = Some (subtitle b)\<rparr>],
              gen_calls := gen_calls acc @ [BarcodeCall t (getFormatConfig (barcodeFormat b))]\<rparr>,
           n + 1))"
    using barcode_item_drawn [OF assms, where t = t and lib = lib and picture = picture] by blast
  have d: "snd (encodeItem qr bc b' bi t st) = snd st + 1"
    by (rule encodeItem_counter)
  have e: "(\<exists>cs es.
          gen_codes (generateBlock qr bc delim acc (b', bi)) = gen_codes acc @ cs
          \<and> gen_errors (generateBlock qr bc delim acc (b', bi)) = gen_errors acc @ es
          \<and> length cs + length es = itemCount delim b'
          \<and> set (map code_index cs) \<union> set (map err_lineNumber es) = {1 ..< 1 + itemCount delim b'})"
    by (rule generateBlock_numbering)
  have f: "(k < length bs \<and> bs ! k = b \<and> js_trim (content b) \<noteq> []
        \<and> j < length (parseContent (content b) delim)
        \<and> parseContent (content b) delim ! j = t \<longrightarrow>
        (\<not> valid (validateBarcodeFormat t (barcodeFormat b)) \<longrightarrow>
           \<lparr>err_blockId = id' b, err_lineNumber = j + 1, err_text = t,
             errorType = ''validation_failed'',
             err_message = error (validateBarcodeFormat t (barcodeFormat b))\<rparr>
           \<in> set (gen_errors (generateDirect qr bc delim calls bs)))
        \<and> (valid (validateBarcodeFormat t (barcodeFormat b)) \<and> bc = None \<longrightarrow>
           \<lparr>err_blockId = id' b, err_lineNumber = j + 1, err_text = t,
             errorType = ''generation_failed'', err_message = Some MsgBarcodeLibMissing\<rparr>
           \<in> set (gen_errors (generateDirect qr bc delim calls bs)))
        \<and> (valid (validateBarcodeFormat t (barcodeFormat b)) \<and> bc = Some lib
             \<and> lib t (getFormatConfig (barcodeFormat b)) = Inl msg \<longrightarrow>
           \<lparr>err_blockId = id' b, err_lineNumber = j + 1, err_text = t,
             errorType = ''generation_failed'',
             err_message = Some (if msg = [] then MsgBarcodeFailed else MsgText msg)\<rparr>
           \<in> set (gen_errors (generateDirect qr bc delim calls bs)))
        \<and> (valid (validateBarcodeFormat t (barcodeFormat b)) \<and> bc = Some lib
             \<and> lib t (getFormatConfig (barcodeFormat b)) = Inr picture \<longrightarrow>
           \<lparr>code_blockId = id' b, code_blockIndex = k, code_index = j + 1, code_text = t,
             code_type = ''barcode'',
             code_data = BarcodePayload
               \<lparr>svg = Some picture, bc_size = getBarcodeSize (length t),
                bc_validation = \<lparr>valid = True, error = None\<rparr>\<rparr>,
             code_size = (if sizeOverride b = ''auto'' then getBarcodeSize (length t)
                          else sizeOverride b),
             code_subtitle = Some (subtitle b)\<rparr>
           \<in> set (gen_codes (generateDirect qr bc delim calls bs))))"
  proof (intro impI conjI)
    assume p: "k < length bs \<and> bs ! k = b \<and> js_trim (content b) \<noteq> []
        \<and> j < length (parseContent (content b) delim)
        \<and> parseContent (content b) delim ! j = t"
    note r = direct_path_records [OF assms, where k = k and bs = bs and j = j
        and delim = delim and t = t and qr = qr and bc = bc and calls = calls]
    {
      assume "\<not> valid (validateBarcodeFormat t (barcodeFormat b))"
      with p show "\<lparr>err_blockId = id' b, err_lineNumber = j + 1, err_text = t,
             errorType = ''validation_failed'',
             err_message = error (validateBarcodeFormat t (barcodeFormat b))\<rparr>
           \<in> set (gen_errors (generateDirect qr bc delim calls bs))"
        using r(1) by blast
    }
    {
      assume "valid (validateBarcodeFormat t (barcodeFormat b)) \<and> bc = None"
      with p show "\<lparr>err_blockId = id' b, err_lineNumber = j + 1, err_text = t,
             errorType = ''generation_failed'', err_message = Some MsgBarcodeLibMissing\<rparr>
           \<in> set (gen_errors (generateDirect qr bc delim calls bs))"
        using r(2) by blast
    }
    {
      assume "valid (validateBarcodeFormat t (barcodeFormat b)) \<and> bc = Some lib
             \<and> lib t (getFormatConfig (barcodeFormat b)) = Inl msg"
      with p show "\<lparr>err_blockId = id' b, err_lineNumber = j + 1, err_text = t,
             errorType = ''generation_failed'',
             err_message = Some (if msg = [] then MsgBarcodeFailed else MsgText msg)\<rparr>
           \<in> set (gen_errors (generateDirect qr bc delim calls bs))"
        using r(3) [where lib = lib and msg = msg] by blast
    }
    {
      assume "valid (validateBarcodeFormat t (barcodeFormat b)) \<and> bc = Some lib
             \<and> lib t (getFormatConfig (barcodeFormat b)) = Inr picture"
      with p show "\<lparr>code_blockId = id' b, code_blockIndex = k, code_index = j + 1, code_text = t,
             code_type = ''barcode'',
             code_data = BarcodePayload
               \<lparr>svg = Some picture, bc_size = getBarcodeSize (length t),
                bc_validation = \<lparr>valid = True, error = None\<rparr>\<rparr>,
             code_size = (if sizeOverride b = ''auto'' then getBarcodeSize (length t)
                          else sizeOverride b),
             code_subtitle = Some (subtitle b)\<rparr>
           \<in> set (gen_codes (generateDirect qr bc delim calls bs))"
        using r(4) [where lib = lib and picture = picture] by blast
    }
  qed
  have h: "(\<not> delegated (generateCodes qr bc worker calls s) \<longrightarrow>
        (\<exists>s'. generateCodes qr bc worker calls s
            = Direct s' (generateDirect qr bc
                (getDelimiter (delimiter (settings (state s))) (customDelimiter (settings (state s))))
                calls (blocks (state s)))
         \<and> generatedCodes (state s')
            = gen_codes (generateDirect qr bc
                (getDelimiter (delimiter (settings (state s))) (customDelimiter (settings (state s))))
                calls (blocks (state s)))
         \<and> errors (state s')
            = gen_errors (generateDirect qr bc
                (getDelimiter (delimiter (settings (state s))) (customDelimiter (settings (state s))))
                calls (blocks (state s)))))"
    using generateCodes_direct by blast
  show ?thesis by (intro conjI a b1 b2 c d e f h)
qed

theorem direct_path_barcode_item_witness:
  "codeType ean_block \<noteq> ''qr''
   \<and> valid (validateBarcodeFormat ''123456789012'' (barcodeFormat ean_block))
   \<and> \<not> valid (validateBarcodeFormat ''12345678901'' (barcodeFormat ean_block))
   \<and> drawing_never ''123456789012'' (getFormatConfig (barcodeFormat ean_block)) = Inl ''no''
   \<and> drawing_always ''123456789012'' (getFormatConfig (barcodeFormat ean_block)) = Inr ''picture''
   \<and> js_trim (content ean_block) \<noteq> []
   \<and> parseContent (content ean_block) [LF] = [''123456789012'', ''12345678901'']
   \<and> \<not> delegated (generateCodes None (Some drawing_never) (None :: unit option) [] ean_store)
   \<and> encodeItem None (Some drawing_always) ean_block 0 ''12345678901'' (empty_acc, 2)
     = (empty_acc\<lparr>gen_errors :=
          [\<lparr>err_blockId = ''a'', err_lineNumber = 2, err_text = ''12345678901'',
            errorType = ''validation_failed'', err_message = Some MsgEanLength\<rparr>]\<rparr>, 3)
   \<and> encodeItem None None ean_block 0 ''123456789012'' (empty_acc, 1)
     = (empty_acc\<lparr>gen_errors :=
          [\<lparr>err_blockId = ''a'', err_lineNumber = 1, err_text = ''123456789012'',
            errorType = ''generation_failed'', err_message = Some MsgBarcodeLibMissing\<rparr>]\<rparr>, 2)
   \<and> encodeItem None (Some drawing_never) ean_block 0 ''123456789012'' (empty_acc, 1)
     = (empty_acc\<lparr>gen_errors :=
          [\<lparr>err_blockId = ''a'', err_lineNumber = 1, err_text = ''123456789012'',
            errorType = ''generation_failed'', err_message = Some (MsgText ''no'')\<rparr>],
          gen_calls := [BarcodeCall ''123456789012''
            \<lparr>fc_format = ''EAN13'', fc_width = 2, fc_height = 40\<rparr>]\<rparr>, 2)
   \<and> encodeItem None (Some drawing_always) ean_block 0 ''123456789012'' (empty_acc, 1)
     = (empty_acc\<lparr>gen_codes :=
          [\<lparr>code_blockId = ''a'', code_blockIndex = 0, code_index = 1,
            code_text = ''123456789012'', code_type = ''barcode'',
            code_data = BarcodePayload \<lparr>svg = Some ''picture'', bc_size = ''small'',
                          bc_validation = \<lparr>valid = True, error = None\<rparr>\<rparr>,
            code_size = ''small'', code_subtitle = Some []\<rparr>],
          gen_calls := [BarcodeCall ''123456789012''
            \<lparr>fc_format = ''EAN13'', fc_width = 2, fc_height = 40\<rparr>]\<rparr>, 2)
   \<and> generateDirect None (Some drawing_always) [LF] [] [ean_block]
     = \<lparr>gen_codes =
          [\<lparr>code_blockId = ''a'', code_blockIndex = 0, code_index = 1,
            code_text = ''123456789012'', code_type = ''barcode'',
            code_data = BarcodePayload \<lparr>svg = Some ''picture'', bc_size = ''small'',
                          bc_validation = \<lparr>valid = True, error = None\<rparr>\<rparr>,
            code_size = ''small'', code_subtitle = Some []\<rparr>],
        gen_errors =
          [\<lparr>err_blockId = ''a'', err_lineNumber = 2, err_text = ''12345678901'',
            errorType = ''validation_failed'', err_message = Some MsgEanLength\<rparr>],
        gen_calls = [BarcodeCall ''123456789012''
            \<lparr>fc_format = ''EAN13'', fc_width = 2, fc_height = 40\<rparr>]\<rparr>
   \<and> generateDirect None None [LF] [] [ean_block]
     = \<lparr>gen_codes = [],
        gen_errors =
          [\<lparr>err_blockId = ''a'', err_lineNumber = 1, err_text = ''123456789012'',
            errorType = ''generation_failed'', err_message = Some MsgBarcodeLibMissing\<rparr>,
           \<lparr>err_blockId = ''a'', err_lineNumber = 2, err_text = ''12345678901'',
            errorType = ''validation_failed'', err_message = Some MsgEanLength\<rparr>],
        gen_calls = []\<rparr>
   \<and> (case generateCodes None (Some drawing_never) (None :: unit option) [] ean_store of
        Delegated s' m \<Rightarrow> False
      | Direct s' g \<Rightarrow>
          generatedCodes (state s') = []
          \<and> errors (state s') =
              [\<lparr>err_blockId = ''a'', err_lineNumber = 1, err_text = ''123456789012'',
                errorType = ''generation_failed'', err_message = Some (MsgText ''no'')\<rparr>,
               \<lparr>err_blockId = ''a'', err_lineNumber = 2, err_text = ''12345678901'',
                errorType = ''validation_failed'', err_message = Some MsgEanLength\<rparr>])"
proof -
  have h: "codeType ean_block \<noteq> ''qr''"
    by (simp add: ean_block_def createNewBlock_def)
  have v: "valid (validateBarcodeFormat ''123456789012'' (barcodeFormat ean_block))"
    by code_simp
  have nv: "\<not> valid (validateBarcodeFormat ''12345678901'' (barcodeFormat ean_block))"
    by code_simp
  have thr: "drawing_never ''123456789012'' (getFormatConfig (barcodeFormat ean_block)) = Inl ''no''"
    by (simp add: drawing_never_def)
  have drw: "drawing_always ''123456789012'' (getFormatConfig (barcodeFormat ean_block)) = Inr ''picture''"
    by (simp add: drawing_always_def)
  have tr: "js_trim (content ean_block) \<noteq> []"
    by code_simp
  have it: "parseContent (content ean_block) [LF] = [''123456789012'', ''12345678901'']"
    by code_simp
  have nd: "\<not> delegated (generateCodes None (Some drawing_never) (None :: unit option) [] ean_store)"
    by code_simp
  have 1: "encodeItem None (Some drawing_always) ean_block 0 ''12345678901'' (empty_acc, 2)
     = (empty_acc\<lparr>gen_errors :=
          [\<lparr>err_blockId = ''a'', err_lineNumber = 2, err_text = ''12345678901'',
            errorType = ''validation_failed'', err_message = Some MsgEanLength\<rparr>]\<rparr>, 3)"
    by code_simp
  have 2: "encodeItem None None ean_block 0 ''123456789012'' (empty_acc, 1)
     = (empty_acc\<lparr>gen_errors :=
          [\<lparr>err_blockId = ''a'', err_lineNumber = 1, err_text = ''123456789012'',
            errorType = ''generation_failed'', err_message = Some MsgBarcodeLibMissing\<rparr>]\<rparr>, 2)"
    by code_simp
  have 3: "encodeItem None (Some drawing_never) ean_block 0 ''123456789012'' (empty_acc, 1)
     = (empty_acc\<lparr>gen_errors :=
          [\<lparr>err_blockId = ''a'', err_lineNumber = 1, err_text = ''123456789012'',
            errorType = ''generation_failed'', err_message = Some (MsgText ''no'')\<rparr>],
          gen_calls := [BarcodeCall ''123456789012''
            \<lparr>fc_format = ''EAN13'', fc_width = 2, fc_height = 40\<rparr>]\<rparr>, 2)"
    by code_simp
  have 7: "encodeItem None (Some drawing_always) ean_block 0 ''123456789012'' (empty_acc, 1)
     = (empty_acc\<lparr>gen_codes :=
          [\<lparr>code_blockId = ''a'', code_blockIndex = 0, code_index = 1,
            code_text = ''123456789012'', code_type = ''barcode'',
            code_data = BarcodePayload \<lparr>svg = Some ''picture'', bc_size = ''small'',
                          bc_validation = \<lparr>valid = True, error = None\<rparr>\<rparr>,
            code_size = ''small'', code_subtitle = Some []\<rparr>],
          gen_calls := [BarcodeCall ''123456789012''
            \<lparr>fc_format = ''EAN13'', fc_width = 2, fc_height = 40\<rparr>]\<rparr>, 2)"
    by code_simp
  have 4: "generateDirect None (Some drawing_always) [LF] [] [ean_block]
     = \<lparr>gen_codes =
          [\<lparr>code_blockId = ''a'', code_blockIndex = 0, code_index = 1,
            code_text = ''123456789012'', code_type = ''barcode'',
            code_data = BarcodePayload \<lparr>svg = Some ''picture'', bc_size = ''small'',
                          bc_validation = \<lparr>valid = True, error = None\<rparr>\<rparr>,
            code_size = ''small'', code_subtitle = Some []\<rparr>],
        gen_errors =
          [\<lparr>err_blockId = ''a'', err_lineNumber = 2, err_text = ''12345678901'',
            errorType = ''validation_failed'', err_message = Some MsgEanLength\<rparr>],
        gen_calls = [BarcodeCall ''123456789012''
            \<lparr>fc_format = ''EAN13'', fc_width = 2, fc_height = 40\<rparr>]\<rparr>"
    by code_simp
  have 5: "generateDirect None None [LF] [] [ean_block]
     = \<lparr>gen_codes = [],
        gen_errors =
          [\<lparr>err_blockId = ''a'', err_lineNumber = 1, err_text = ''123456789012'',
            errorType = ''generation_failed'', err_message = Some MsgBarcodeLibMissing\<rparr>,
           \<lparr>err_blockId = ''a'', err_lineNumber = 2, err_text = ''12345678901'',
            errorType = ''validation_failed'', err_message = Some MsgEanLength\<rparr>],
        gen_calls = []\<rparr>"
    by code_simp
  have 6: "(case generateCodes None (Some drawing_never) (None :: unit option) [] ean_store of
        Delegated s' m \<Rightarrow> False
      | Direct s' g \<Rightarrow>
          generatedCodes (state s') = []
          \<and> errors (state s') =
              [\<lparr>err_blockId = ''a'', err_lineNumber = 1, err_text = ''123456789012'',
                errorType = ''generation_failed'', err_message = Some (MsgText ''no'')\<rparr>,
               \<lparr>err_blockId = ''a'', err_lineNumber = 2, err_text = ''12345678901'',
                errorType = ''validation_failed'', err_message = Some MsgEanLength\<rparr>])"
    by code_simp
  show ?thesis
    using direct_path_barcode_item [OF h, where t = "''12345678901''" and qr = None
        and bc = "Some drawing_always" and bi = 0 and acc = empty_acc and n = 2
        and lib = drawing_always and msg = "''no''" and picture = "''picture''"
        and b' = ean_block and st = "(empty_acc, 2)" and delim = "[LF]" and k = 0
        and bs = "[ean_block]" and j = 1 and calls = "[]"
        and worker = "None :: unit option" and s = ean_store]
      direct_path_barcode_item [OF h, where t = "''123456789012''" and qr = None
        and bc = "None" and bi = 0 and acc = empty_acc and n = 1
        and lib = drawing_never and msg = "''no''" and picture = "''picture''"
        and b' = ean_block and st = "(empty_acc, 1)" and delim = "[LF]" and k = 0
        and bs = "[ean_block]" and j = 0 and calls = "[]"
        and worker = "None :: unit option" and s = ean_store]
      direct_path_barcode_item [OF h, where t = "''123456789012''" and qr = None
        and bc = "Some drawing_never" and bi = 0 and acc = empty_acc and n = 1
        and lib = drawing_never and msg = "''no''" and picture = "''picture''"
        and b' = ean_block and st = "(empty_acc, 1)" and delim = "[LF]" and k = 0
        and bs = "[ean_block]" and j = 0 and calls = "[]"
        and worker = "None :: unit option" and s = ean_store]
      direct_path_barcode_item [OF h, where t = "''123456789012''" and qr = None
        and bc = "Some drawing_always" and bi = 0 and acc = empty_acc and n = 1
        and lib = drawing_always and msg = "''no''" and picture = "''picture''"
        and b' = ean_block and st = "(empty_acc, 1)" and delim = "[LF]" and k = 0
        and bs = "[ean_block]" and j = 0 and calls = "[]"
        and worker = "None :: unit option" and s = ean_store]
      h v nv thr drw tr it nd 1 2 3 7 4 5 6
    by simp
qed

text \<open>
  Extra X2. The worker's copies of \<open>getDelimiter\<close> and \<open>parseContent\<close> compute
  what the ones of utils.js compute.
\<close>

theorem worker_parseContent_agrees:
  "worker_getDelimiter dtype custom = getDelimiter dtype custom
   \<and> worker_parseContent cont g
       = parseContent cont (getDelimiter (delimiter g) (customDelimiter g))"
proof -
  have "worker_getDelimiter dtype custom = getDelimiter dtype custom" for dtype custom
    by (simp add: worker_getDelimiter_def getDelimiter_def DELIMITERS_def)
  then show ?thesis by (simp add: worker_parseContent_def parseContent_def)
qed

lemma finalizeItem_errors: "gen_errors (finalizeItem qr bc acc item) = gen_errors acc"
  by (simp add: finalizeItem_def split: prod.split option.split)

lemma finalize_foldl_errors: "gen_errors (foldl (finalizeItem qr bc) acc rs) = gen_errors acc"
  by (induction rs arbitrary: acc) (simp_all add: finalizeItem_errors)

text \<open>
  Extra X1. Whatever the requests and the libraries, \<open>finalizeCodesFromWorker\<close>
  records no error and leaves the errors of the store as they were.
\<close>

theorem finalizeCodesFromWorker_no_errors:
  "gen_errors (snd (finalizeCodesFromWorker qr bc rs calls s)) = []
   \<and> errors (state (fst (finalizeCodesFromWorker qr bc rs calls s))) = errors (state s)"
  by (simp add: finalizeCodesFromWorker_def Let_def finalize_foldl_errors setGeneratedCodes_def
        setState_def spread_state_def or_else_def no_updates_def)


text \<open>
  Claim C2 at a failing input. One EAN13 barcode block with 50 lines, the first valid and
  the other 49 invalid, and a worker: the run is delegated, the worker returns 50
  requests, and \<open>finalizeCodesFromWorker\<close> yields the one code without a subtitle and
  no error at all, and stores no errors. The direct path on the same store yields the
  code with its subtitle and 49 errors \<open>validation_failed\<close> with the line numbers 2
  to 50.
\<close>

theorem worker_path_drops_errors:
  "(case generateCodes None (Some drawing_always) (Some ()) [] mixed_store of
      Delegated s req \<Rightarrow>
        (case last (worker_onmessage req) of
           COMPLETE results \<Rightarrow>
             (case finalizeCodesFromWorker None (Some drawing_always) results [] s of
                (s', acc) \<Rightarrow>
                  length results = 50
                  \<and> map code_index (gen_codes acc) = [1]
                  \<and> map code_subtitle (gen_codes acc) = [None]
                  \<and> gen_errors acc = []
                  \<and> errors (state s') = [])
         | _ \<Rightarrow> False)
    | Direct s acc \<Rightarrow> False)
   \<and> (case generateCodes None (Some drawing_always) (None :: unit option) [] mixed_store of
      Delegated s req \<Rightarrow> False
    | Direct s acc \<Rightarrow>
        map code_index (gen_codes acc) = [1]
        \<and> map code_subtitle (gen_codes acc) = [Some []]
        \<and> map err_lineNumber (gen_errors acc) = [2 ..< 51]
        \<and> map errorType (gen_errors acc) = replicate 49 ''validation_failed''
        \<and> length (errors (state s)) = 49)"
  by code_simp

section \<open>Properties of the CSV functions\<close>

lemma csv_escape_Cons:
  "csv_escape (c # f) = (if c = DQ then [DQ, DQ] else [c]) @ csv_escape f"
  by (simp add: csv_escape_def)

lemma loop_unquoted:
  "DQ \<notin> set f \<Longrightarrow> COMMA \<notin> set f \<Longrightarrow> LF \<notin> set f \<Longrightarrow> CR \<notin> set f \<Longrightarrow>
   parseCSV_loop (f @ rest) result row current False
     = parseCSV_loop rest result row (current @ f) False"
  by (induction f arbitrary: current) auto

lemma loop_quoted:
  "rest = [] \<or> hd rest \<noteq> DQ \<Longrightarrow>
   parseCSV_loop (csv_escape f @ DQ # rest) result row current True
     = parseCSV_loop rest result row (current @ f) False"
proof (induction f arbitrary: current)
  case Nil
  then show ?case by (cases rest) (auto simp: csv_escape_def)
next
  case (Cons c f)
  then show ?case by (cases "csv_escape f @ DQ # rest") (auto simp: csv_escape_Cons)
qed

lemma loop_field:
  assumes "CR \<notin> set f" "rest = [] \<or> hd rest \<noteq> DQ"
  shows "parseCSV_loop (csv_field f @ rest) result row current False
           = parseCSV_loop rest result row (current @ f) False"
proof (cases "DQ \<in> set f \<or> COMMA \<in> set f \<or> LF \<in> set f")
  case True
  then have "csv_field f @ rest = DQ # csv_escape f @ DQ # rest"
    by (simp add: csv_field_def)
  then show ?thesis using loop_quoted [OF assms(2)] by simp
next
  case False
  then show ?thesis using assms(1) by (simp add: csv_field_def loop_unquoted)
qed

lemma loop_row:
  assumes "fs \<noteq> []" "\<forall>f\<in>set fs. CR \<notin> set f" "rest = [] \<or> hd rest = LF"
  shows "parseCSV_loop (js_join [COMMA] (map csv_field fs) @ rest) result row [] False
           = parseCSV_loop rest result (row @ butlast fs) (last fs) False"
  using assms
proof (induction fs arbitrary: row)
  case Nil
  then show ?case by simp
next
  case (Cons f fs)
  show ?case
  proof (cases fs)
    case Nil
    have "rest = [] \<or> hd rest \<noteq> DQ" using Cons.prems(3) by auto
    then show ?thesis using Nil Cons.prems(2) loop_field [of f rest result row "[]"] by simp
  next
    case (Cons g gs)
    let ?tail = "js_join [COMMA] (map csv_field fs) @ rest"
    have "parseCSV_loop (csv_field f @ COMMA # ?tail) result row [] False
            = parseCSV_loop (COMMA # ?tail) result row ([] @ f) False"
      using Cons.prems(2) by (intro loop_field) auto
    also have "\<dots> = parseCSV_loop ?tail result (row @ [f]) [] False" by simp
    also have "\<dots> = parseCSV_loop rest result ((row @ [f]) @ butlast fs) (last fs) False"
      using Cons.IH [of "row @ [f]"] Cons.prems Cons by simp
    finally show ?thesis using Cons by simp
  qed
qed

lemma loop_rows:
  assumes "rows \<noteq> []" "\<forall>r\<in>set rows. r \<noteq> []" "\<forall>r\<in>set rows. \<forall>f\<in>set r. CR \<notin> set f"
  shows "parseCSV_loop (toCSV rows) result [] [] False
           = (result @ butlast rows, butlast (last rows), last (last rows))"
  using assms
proof (induction rows arbitrary: result)
  case Nil
  then show ?case by simp
next
  case (Cons r rows)
  show ?case
  proof (cases rows)
    case Nil
    then show ?thesis
      using Cons.prems loop_row [of r "[]" result "[]"] by (simp add: toCSV_def)
  next
    case (Cons r' rs)
    let ?tail = "toCSV rows"
    have t: "toCSV (r # rows) = js_join [COMMA] (map csv_field r) @ LF # ?tail"
      using Cons by (simp add: toCSV_def)
    have "parseCSV_loop (js_join [COMMA] (map csv_field r) @ LF # ?tail) result [] [] False
            = parseCSV_loop (LF # ?tail) result ([] @ butlast r) (last r) False"
      using Cons.prems by (intro loop_row) auto
    also have "\<dots> = parseCSV_loop ?tail (result @ [r]) [] [] False"
      using Cons.prems by (cases ?tail) auto
    also have "\<dots> = ((result @ [r]) @ butlast rows, butlast (last rows), last (last rows))"
      using Cons.IH [of "result @ [r]"] Cons.prems Cons by simp
    finally show ?thesis using t Cons by simp
  qed
qed

text \<open>
  What the parser returns on a written table in general: a last row that is a single
  empty field is lost, and nothing else.
\<close>

lemma parseCSV_toCSV_general:
  assumes "rows \<noteq> []" "\<forall>r\<in>set rows. r \<noteq> []" "\<forall>r\<in>set rows. \<forall>f\<in>set r. CR \<notin> set f"
  shows "parseCSV (toCSV rows) = (if last rows = [[]] then butlast rows else rows)"
proof -
  have l: "last rows \<noteq> []" using assms(1,2) by simp
  have p: "parseCSV (toCSV rows)
             = (if last (last rows) \<noteq> [] \<or> butlast (last rows) \<noteq> []
                then butlast rows @ [butlast (last rows) @ [last (last rows)]]
                else butlast rows)"
    using loop_rows [OF assms, of "[]"] by (simp add: parseCSV_def)
  have e: "(last (last rows) \<noteq> [] \<or> butlast (last rows) \<noteq> []) \<longleftrightarrow> last rows \<noteq> [[]]"
    using l by (cases "last rows" rule: rev_cases) auto
  show ?thesis unfolding p e using l assms(1) by simp
qed

text \<open>
  Claim C10. For a table with at least one row, whose rows each have at least one field,
  whose fields contain no carriage return, and whose last row is not a single empty
  field, parsing the text that \<open>toCSV\<close> writes gives the table back.
\<close>

theorem parseCSV_toCSV:
  assumes "rows \<noteq> []" "\<forall>r\<in>set rows. r \<noteq> []" "\<forall>r\<in>set rows. \<forall>f\<in>set r. CR \<notin> set f"
    "last rows \<noteq> [[]]"
  shows "parseCSV (toCSV rows) = rows"
proof -
  have "parseCSV (toCSV rows) = (if last rows = [[]] then butlast rows else rows)"
    using assms(1-3) by (rule parseCSV_toCSV_general)
  then show ?thesis using assms(4) by simp
qed

theorem parseCSV_toCSV_witness:
  "parseCSV (toCSV [[''a'', ''b,c''], [[CHR ''d'', DQ, CHR ''e''], [CHR ''f'', LF, CHR ''g'']],
                    [[], []]])
     = [[''a'', ''b,c''], [[CHR ''d'', DQ, CHR ''e''], [CHR ''f'', LF, CHR ''g'']], [[], []]]"
  using parseCSV_toCSV [of "[[''a'', ''b,c''], [[CHR ''d'', DQ, CHR ''e''],
                            [CHR ''f'', LF, CHR ''g'']], [[], []]]"]
  by simp

section \<open>Properties of export and import\<close>

lemma split_lines_nonempty: "split_lines s \<noteq> []"
proof (cases s)
  case Nil
  then show ?thesis by simp
next
  case (Cons c cs)
  then show ?thesis by (cases "split_lines cs") (simp_all add: split_lines.simps(2))
qed

lemma split_lines_LF: "split_lines (LF # cs) = [] # split_lines cs"
  by (simp add: split_lines.simps(2))

lemma split_lines_plain:
  assumes "c \<noteq> LF" "c \<noteq> CR"
  obtains p ps where "split_lines cs = p # ps" "split_lines (c # cs) = (c # p) # ps"
proof -
  obtain p ps where p: "split_lines cs = p # ps"
    using split_lines_nonempty [of cs] by (cases "split_lines cs") auto
  then have "split_lines (c # cs) = (c # p) # ps"
    using assms by (simp add: split_lines.simps(2))
  with p that show thesis by blast
qed

lemma join_split_lines: "CR \<notin> set s \<Longrightarrow> js_join [LF] (split_lines s) = s"
proof (induction s)
  case Nil
  then show ?case by simp
next
  case (Cons c cs)
  then have ih: "js_join [LF] (split_lines cs) = cs" and nc: "c \<noteq> CR" by auto
  show ?case
  proof (cases "c = LF")
    case True
    then show ?thesis using ih split_lines_nonempty [of cs]
      by (simp add: split_lines_LF js_join_Nil_Cons)
  next
    case False
    from split_lines_plain [OF False nc, of cs] obtain p ps
      where "split_lines cs = p # ps" "split_lines (c # cs) = (c # p) # ps" by blast
    then show ?thesis using ih by (simp add: js_join_Cons_char)
  qed
qed

lemma split_lines_subset:
  "CR \<notin> set s \<Longrightarrow> l \<in> set (split_lines s) \<Longrightarrow> set l \<subseteq> set s"
proof (induction s arbitrary: l)
  case Nil
  then show ?case by simp
next
  case (Cons c cs)
  then have nc: "c \<noteq> CR" and ncs: "CR \<notin> set cs" by auto
  show ?case
  proof (cases "c = LF")
    case True
    then have "l = [] \<or> l \<in> set (split_lines cs)" using Cons.prems(2) by (simp add: split_lines_LF)
    then show ?thesis using Cons.IH [OF ncs] by auto
  next
    case False
    from split_lines_plain [OF False nc, of cs] obtain p ps
      where p: "split_lines cs = p # ps" "split_lines (c # cs) = (c # p) # ps" by blast
    then have l: "l = c # p \<or> l \<in> set ps" using Cons.prems(2) by simp
    have "set p \<subseteq> set cs" using Cons.IH [OF ncs, of p] p by simp
    moreover have "l \<in> set ps \<Longrightarrow> set l \<subseteq> set cs" using Cons.IH [OF ncs, of l] p by simp
    ultimately show ?thesis using l by auto
  qed
qed

lemma last_split_lines:
  "CR \<notin> set s \<Longrightarrow> s \<noteq> [] \<Longrightarrow> last s \<noteq> LF \<Longrightarrow> last (split_lines s) \<noteq> []"
proof (induction s)
  case Nil
  then show ?case by simp
next
  case (Cons c cs)
  then have nc: "c \<noteq> CR" and ncs: "CR \<notin> set cs" by auto
  show ?case
  proof (cases "cs = []")
    case True
    then have "c \<noteq> LF" using Cons.prems by simp
    from split_lines_plain [OF this nc, of cs] obtain p ps
      where p: "split_lines cs = p # ps" "split_lines (c # cs) = (c # p) # ps" by blast
    then have "p = [] \<and> ps = []" using True by simp
    then show ?thesis using p(2) by simp
  next
    case False
    then have "last cs \<noteq> LF" using Cons.prems(3) by simp
    then have ih: "last (split_lines cs) \<noteq> []" using Cons.IH [OF ncs False] by simp
    show ?thesis
    proof (cases "c = LF")
      case True
      then show ?thesis using ih split_lines_nonempty [of cs] by (simp add: split_lines_LF)
    next
      case False
      from split_lines_plain [OF False nc, of cs] obtain p ps
        where p: "split_lines cs = p # ps" "split_lines (c # cs) = (c # p) # ps" by blast
      then show ?thesis using ih by (cases ps) auto
    qed
  qed
qed

lemma pad_lines:
  "length ls \<le> m \<Longrightarrow> map (nth_or_empty ls) [0..<m] = ls @ replicate (m - length ls) []"
proof (rule nth_equalityI)
  assume "length ls \<le> m"
  then show "length (map (nth_or_empty ls) [0..<m]) = length (ls @ replicate (m - length ls) [])"
    by simp
next
  fix i
  assume "length ls \<le> m" "i < length (map (nth_or_empty ls) [0..<m])"
  then show "map (nth_or_empty ls) [0..<m] ! i = (ls @ replicate (m - length ls) []) ! i"
    by (simp add: nth_or_empty_def nth_append)
qed

lemma drop_trailing_empty:
  fixes ls :: "string list"
  shows "ls = [] \<or> last ls \<noteq> [] \<Longrightarrow> rev (dropWhile (\<lambda>l. l = []) (rev (ls @ replicate k []))) = ls"
proof -
  assume a: "ls = [] \<or> last ls \<noteq> []"
  have "dropWhile (\<lambda>l. l = []) (replicate k ([] :: string) @ rev ls) = dropWhile (\<lambda>l. l = []) (rev ls)"
    by (induction k) auto
  moreover have "dropWhile (\<lambda>l. l = []) (rev ls) = rev ls"
    using a by (cases ls rule: rev_cases) auto
  ultimately show ?thesis by simp
qed

lemma maxLines_Cons: "maxLines (c # contents) = max (length c) (maxLines contents)"
  by (simp add: maxLines_def)

lemma length_le_maxLines: "ls \<in> set contents \<Longrightarrow> length ls \<le> maxLines contents"
proof (induction contents)
  case Nil
  then show ?case by simp
next
  case (Cons c contents)
  then have "ls = c \<or> ls \<in> set contents" by simp
  then show ?case
  proof
    assume "ls = c"
    then show ?thesis by (simp add: maxLines_Cons)
  next
    assume "ls \<in> set contents"
    then have "length ls \<le> maxLines contents" by (rule Cons.IH)
    then show ?thesis by (simp add: maxLines_Cons le_max_iff_disj)
  qed
qed

lemma maxLines_pos: "ls \<in> set contents \<Longrightarrow> ls \<noteq> [] \<Longrightarrow> 0 < maxLines contents"
proof -
  assume a: "ls \<in> set contents" "ls \<noteq> []"
  then have "0 < length ls" by simp
  also have "length ls \<le> maxLines contents" using a(1) by (rule length_le_maxLines)
  finally show ?thesis .
qed


lemma findRow_export:
  "findRow (export_rows bs) ''Subtitle'' = Some (''Subtitle'' # map subtitle bs)"
  "findRow (export_rows bs) ''CodeType'' = Some (''CodeType'' # map codeType bs)"
  "findRow (export_rows bs) ''QRErrorCorrection''
     = Some (''QRErrorCorrection'' # map qrErrorCorrection bs)"
  "findRow (export_rows bs) ''BarcodeFormat'' = Some (''BarcodeFormat'' # map barcodeFormat bs)"
  "findRow (export_rows bs) ''SizeOverride'' = Some (''SizeOverride'' # map sizeOverride bs)"
  by (simp_all add: findRow_def export_rows_def cell_def)

lemma cell_Suc: "j < length xs \<Longrightarrow> cell (k # xs) (Suc j) = Some (xs ! j)"
  by (simp add: cell_def)

lemma content_rows_Cons:
  "0 < m \<Longrightarrow> map (content_row cs) [0..<m] = content_row cs 0 # map (content_row cs) [Suc 0..<m]"
  by (simp add: upt_conv_Cons)

lemma findIndex_content:
  assumes "0 < maxLines (blockContents bs)"
  shows "findIndex (\<lambda>row. cell row 0 = Some ''Content'') (export_rows bs) = Some 5"
  unfolding export_rows_def content_rows_Cons [OF assms]
  by (simp add: cell_def content_row_def)

lemma not_key_row: "0 < i \<Longrightarrow> \<not> is_key_row (content_row cs i)"
  by (simp add: is_key_row_def content_row_def cell_def)

lemma takeWhile_content_rows:
  "takeWhile (\<lambda>row. \<not> is_key_row row) (map (content_row cs) [Suc 0..<m])
     = map (content_row cs) [Suc 0..<m]"
  by (rule takeWhile_eq_all_conv [THEN iffD2]) (auto simp: not_key_row)

lemma drop5_export:
  "drop 5 (export_rows bs) = map (content_row (blockContents bs)) [0..<maxLines (blockContents bs)]"
  by (simp add: export_rows_def)

lemma contentLines_export:
  assumes j: "j < length bs" and m: "0 < maxLines (blockContents bs)"
    and l: "blockContents bs ! j = [] \<or> last (blockContents bs ! j) \<noteq> []"
  shows "contentLines (export_rows bs) 5 (Suc j) = blockContents bs ! j"
proof -
  let ?cs = "blockContents bs" and ?m = "maxLines (blockContents bs)"
  have len: "length ?cs = length bs" by (simp add: blockContents_def)
  have taken: "(case drop 5 (export_rows bs) of [] \<Rightarrow> []
                | r # rs \<Rightarrow> r # takeWhile (\<lambda>row. \<not> is_key_row row) rs)
               = map (content_row ?cs) [0..<?m]"
    unfolding drop5_export content_rows_Cons [OF m] by (simp add: takeWhile_content_rows)
  have c: "\<And>i. (case cell (content_row ?cs i) (Suc j) of None \<Rightarrow> [] | Some v \<Rightarrow> v)
              = nth_or_empty (?cs ! j) i"
    using j len by (simp add: content_row_def cell_Suc)
  have "map (\<lambda>row. case cell row (Suc j) of None \<Rightarrow> [] | Some v \<Rightarrow> v)
          (map (content_row ?cs) [0..<?m]) = map (nth_or_empty (?cs ! j)) [0..<?m]"
    by (simp add: c comp_def)
  also have "\<dots> = ?cs ! j @ replicate (?m - length (?cs ! j)) []"
    using j len by (intro pad_lines length_le_maxLines) simp
  finally have ls: "map (\<lambda>row. case cell row (Suc j) of None \<Rightarrow> [] | Some v \<Rightarrow> v)
          (map (content_row ?cs) [0..<?m]) = ?cs ! j @ replicate (?m - length (?cs ! j)) []" .
  show ?thesis
    unfolding contentLines_def Let_def taken ls by (rule drop_trailing_empty [OF l])
qed


lemma well_typed_fields:
  assumes "well_typed b"
  shows "codeType b = ''qr'' \<or> codeType b = ''barcode''"
    "qrErrorCorrection b \<noteq> []" "barcodeFormat b \<noteq> []" "sizeOverride b \<noteq> []"
    "CR \<notin> set (codeType b)" "CR \<notin> set (qrErrorCorrection b)"
    "CR \<notin> set (barcodeFormat b)" "CR \<notin> set (sizeOverride b)"
proof -
  have c: "codeType b \<in> set [''qr'', ''barcode'']"
    and q: "qrErrorCorrection b \<in> set [''L'', ''M'', ''Q'', ''H'']"
    and f: "barcodeFormat b \<in> set [''CODE128'', ''EAN13'', ''JAN'', ''CODE39'', ''ITF'']"
    and z: "sizeOverride b \<in> set [''auto'', ''small'', ''medium'', ''large'']"
    using assms by (simp_all add: well_typed_def)
  show "codeType b = ''qr'' \<or> codeType b = ''barcode''" using c by simp
  show "qrErrorCorrection b \<noteq> []" using q by auto
  show "barcodeFormat b \<noteq> []" using f by auto
  show "sizeOverride b \<noteq> []" using z by auto
  show "CR \<notin> set (codeType b)" using c by auto
  show "CR \<notin> set (qrErrorCorrection b)" using q by auto
  show "CR \<notin> set (barcodeFormat b)" using f by auto
  show "CR \<notin> set (sizeOverride b)" using z by auto
qed

lemma import_block_export:
  assumes ok: "\<forall>b\<in>set bs. exportable b" and j: "j < length bs"
  shows "same_but_id (import_block (export_rows bs) (Suc j) u) (bs ! j)"
proof -
  let ?b = "bs ! j" and ?cs = "blockContents bs"
  have b: "exportable ?b" using ok j by simp
  then have wt: "well_typed ?b" and nc: "CR \<notin> set (content ?b)" and ne: "content ?b \<noteq> []"
    and nl: "last (content ?b) \<noteq> LF" by (simp_all add: exportable_def)
  have cj: "?cs ! j = split_lines (content ?b)"
    using j ne by (simp add: blockContents_def)
  have "?cs ! j \<in> set ?cs" using j by (intro nth_mem) (simp add: blockContents_def)
  moreover have "?cs ! j \<noteq> []" unfolding cj by (rule split_lines_nonempty)
  ultimately have m: "0 < maxLines ?cs" by (rule maxLines_pos)
  have "last (?cs ! j) \<noteq> []" unfolding cj using nc ne nl by (rule last_split_lines)
  then have cl: "contentLines (export_rows bs) 5 (Suc j) = split_lines (content ?b)"
    using contentLines_export [OF j m] cj by simp
  have jn: "js_join [LF] (split_lines (content ?b)) = content ?b"
    using nc by (rule join_split_lines)
  show ?thesis
    using well_typed_fields(1-4) [OF wt] j
    by (auto simp: import_block_def findRow_export findIndex_content [OF m] cell_Suc cl jn
          same_but_id_def str_or_def createNewBlock_def Let_def)
qed

lemma export_rows_length: "r \<in> set (export_rows bs) \<Longrightarrow> length r = Suc (length bs)"
  by (auto simp: export_rows_def content_row_def blockContents_def)

lemma nth_or_empty_no_CR:
  assumes "\<forall>l\<in>set ls. CR \<notin> set l"
  shows "CR \<notin> set (nth_or_empty ls i)"
  using assms by (simp add: nth_or_empty_def)

lemma blockContents_no_CR:
  assumes "\<forall>b\<in>set bs. CR \<notin> set (content b)" "ls \<in> set (blockContents bs)" "l \<in> set ls"
  shows "CR \<notin> set l"
proof -
  from assms(2) obtain b where b: "b \<in> set bs"
    "ls = (if content b = [] then [] else split_lines (content b))"
    by (auto simp: blockContents_def)
  then have "l \<in> set (split_lines (content b))" using assms(3) by (auto split: if_splits)
  moreover have "CR \<notin> set (content b)" using assms(1) b(1) by simp
  ultimately show ?thesis using split_lines_subset by blast
qed

lemma export_rows_no_CR:
  assumes ok: "\<forall>b\<in>set bs. exportable b" and r: "r \<in> set (export_rows bs)" and f: "f \<in> set r"
  shows "CR \<notin> set f"
proof -
  have c: "\<forall>b\<in>set bs. CR \<notin> set (content b)" using ok by (simp add: exportable_def)
  have meta: "\<forall>b\<in>set bs. CR \<notin> set (subtitle b) \<and> CR \<notin> set (codeType b)
      \<and> CR \<notin> set (qrErrorCorrection b) \<and> CR \<notin> set (barcodeFormat b)
      \<and> CR \<notin> set (sizeOverride b)"
    using ok well_typed_fields(5-8) by (simp add: exportable_def)
  have lines: "\<And>ls i. ls \<in> set (blockContents bs) \<Longrightarrow> CR \<notin> set (nth_or_empty ls i)"
    using blockContents_no_CR [OF c] by (intro nth_or_empty_no_CR) blast
  from r f meta lines show ?thesis
    by (auto simp: export_rows_def content_row_def split: if_splits)
qed

lemma parseCSV_exportData:
  assumes "bs \<noteq> []" "\<forall>b\<in>set bs. exportable b"
  shows "parseCSV (exportData bs) = export_rows bs"
proof -
  have ne: "export_rows bs \<noteq> []" by (simp add: export_rows_def)
  have rows: "\<forall>r\<in>set (export_rows bs). r \<noteq> []" using export_rows_length by fastforce
  have cr: "\<forall>r\<in>set (export_rows bs). \<forall>f\<in>set r. CR \<notin> set f"
    using export_rows_no_CR [OF assms(2)] by blast
  have "last (export_rows bs) \<in> set (export_rows bs)" using ne by (rule last_in_set)
  then have "length (last (export_rows bs)) = Suc (length bs)" by (rule export_rows_length)
  then have "last (export_rows bs) \<noteq> [[]]" using assms(1) by auto
  then show ?thesis
    unfolding exportData_def using parseCSV_toCSV_general [OF ne rows cr] by simp
qed

text \<open>
  The export of blocks whose subtitles do not include both \<open>CodeType\<close> and \<open>Content\<close>
  is detected as columnar, and the columnar branch reads the exported rows back.
\<close>

lemma export_rows_new_format:
  assumes "\<not> (''CodeType'' \<in> subtitle ` set bs \<and> ''Content'' \<in> subtitle ` set bs)"
  shows "isNewFormat (export_rows bs)"
proof -
  have old: "\<not> isOldFormat (export_rows bs)"
    using assms by (auto simp: isOldFormat_def export_rows_def)
  have "list_ex (\<lambda>row. cell row 0 = Some ''CodeType'') (export_rows bs)"
    by (simp add: export_rows_def cell_def)
  with old show ?thesis by (simp add: isNewFormat_def)
qed

lemma import_columnar_export:
  assumes "bs \<noteq> []" "\<forall>b\<in>set bs. exportable b"
  shows "\<exists>bs'. import_columnar (export_rows bs) uuid = Inr bs' \<and> list_all2 same_but_id bs' bs"
proof -
  let ?new = "map (\<lambda>col. import_block (export_rows bs) col (uuid col)) [1..<Suc (length bs)]"
  obtain others where e: "export_rows bs = (''Subtitle'' # map subtitle bs) # others"
    by (simp add: export_rows_def)
  have n: "Suc 0 \<le> length bs" using assms(1) by (cases bs) simp_all
  have "import_columnar (export_rows bs) uuid = Inr ?new"
    unfolding e using n assms(1) by (simp add: import_columnar_def Let_def del: upt_Suc)
  moreover have "list_all2 same_but_id ?new bs"
    unfolding list_all2_conv_all_nth
  proof (intro conjI allI impI)
    show "length ?new = length bs" by (simp del: upt_Suc)
  next
    fix i assume "i < length ?new"
    then have i: "i < length bs" by (simp del: upt_Suc)
    then have "?new ! i = import_block (export_rows bs) (Suc i) (uuid (Suc i))"
      by (simp del: upt_Suc)
    then show "same_but_id (?new ! i) (bs ! i)"
      using import_block_export [OF assms(2) i] by simp
  qed
  ultimately show ?thesis by blast
qed

text \<open>
  Claim C4, as the code has it. For a block list with at least one block, whose blocks
  have typed selections, no carriage return in subtitle or content, and a non-empty
  content that does not end with a line feed, and whose subtitles do not include both
  \<open>CodeType\<close> and \<open>Content\<close>: the exported columnar CSV text is detected as columnar
  by the import, and importing it gives blocks equal to the original ones in subtitle,
  code type, error correction, barcode format, size override and content.
\<close>

theorem export_import_round_trip:
  assumes "bs \<noteq> []" "\<forall>b\<in>set bs. exportable b"
    "\<not> (''CodeType'' \<in> subtitle ` set bs \<and> ''Content'' \<in> subtitle ` set bs)"
  shows "isNewFormat (parseCSV (exportData bs))
         \<and> (\<exists>bs'. import_columnar (parseCSV (exportData bs)) uuid = Inr bs'
                \<and> importCSV (exportData bs) uuid = Inr bs'
                \<and> list_all2 same_but_id bs' bs)"
proof -
  have p: "parseCSV (exportData bs) = export_rows bs"
    using assms(1,2) by (rule parseCSV_exportData)
  have nf: "isNewFormat (export_rows bs)" using assms(3) by (rule export_rows_new_format)
  have ne: "length (export_rows bs) \<noteq> 0" by (simp add: export_rows_def)
  have i: "importCSV (exportData bs) uuid = import_columnar (export_rows bs) uuid"
    using nf ne by (simp add: importCSV_def p Let_def)
  from import_columnar_export [OF assms(1,2), of uuid] show ?thesis
    unfolding p i using nf by blast
qed

theorem export_import_round_trip_witness:
  "isNewFormat (parseCSV (exportData [ean_block, quoted_block]))
   \<and> importCSV (exportData [ean_block, quoted_block]) (\<lambda>col. ''n'')
     = Inr [ean_block\<lparr>id' := ''n''\<rparr>, quoted_block\<lparr>id' := ''n''\<rparr>]
   \<and> list_all2 same_but_id [ean_block\<lparr>id' := ''n''\<rparr>, quoted_block\<lparr>id' := ''n''\<rparr>]
         [ean_block, quoted_block]"
proof -
  have ne: "[ean_block, quoted_block] \<noteq> []" by simp
  have ok: "\<forall>b\<in>set [ean_block, quoted_block]. exportable b"
    by (simp add: exportable_def well_typed_def ean_block_def quoted_block_def createNewBlock_def)
  have hd: "\<not> (''CodeType'' \<in> subtitle ` set [ean_block, quoted_block]
              \<and> ''Content'' \<in> subtitle ` set [ean_block, quoted_block])"
    by (simp add: ean_block_def quoted_block_def createNewBlock_def)
  have e: "importCSV (exportData [ean_block, quoted_block]) (\<lambda>col. ''n'')
     = Inr [ean_block\<lparr>id' := ''n''\<rparr>, quoted_block\<lparr>id' := ''n''\<rparr>]"
    by code_simp
  show ?thesis
    using export_import_round_trip [OF ne ok hd, of "\<lambda>col. ''n''"] e by auto
qed

text \<open>
  The claim as stated fails for a block whose content is \<open>a\<close> followed by a line feed:
  the export writes the empty last line as an empty cell, and the import drops trailing
  empty lines, so the content comes back as \<open>a\<close>.
\<close>

theorem export_import_trailing_newline_counterexample:
  "content newline_block \<noteq> []
   \<and> isNewFormat (parseCSV (exportData [newline_block]))
   \<and> \<not> (\<exists>bs'. import_columnar (parseCSV (exportData [newline_block])) (\<lambda>col. ''x'') = Inr bs'
              \<and> list_all2 same_but_id bs' [newline_block])
   \<and> \<not> (\<exists>bs'. importCSV (exportData [newline_block]) (\<lambda>col. ''x'') = Inr bs'
              \<and> list_all2 same_but_id bs' [newline_block])"
proof -
  have e: "import_columnar (parseCSV (exportData [newline_block])) (\<lambda>col. ''x'')
             = Inr [newline_block\<lparr>id' := ''x'', content := ''a''\<rparr>]"
    by code_simp
  have f: "importCSV (exportData [newline_block]) (\<lambda>col. ''x'')
             = Inr [newline_block\<lparr>id' := ''x'', content := ''a''\<rparr>]"
    by code_simp
  have n: "isNewFormat (parseCSV (exportData [newline_block]))"
    by code_simp
  show ?thesis unfolding e f using n
    by (simp add: same_but_id_def newline_block_def createNewBlock_def)
qed

text \<open>
  The condition on the subtitles is needed: the export of two blocks with the subtitles
  \<open>CodeType\<close> and \<open>Content\<close> has both words in its first row, so the import takes it
  for the legacy row format and builds one block from each of its five rows that follow
  the first.
\<close>

lemma export_import_header_subtitles:
  "list_all exportable header_blocks
   \<and> isOldFormat (parseCSV (exportData header_blocks))
   \<and> \<not> isNewFormat (parseCSV (exportData header_blocks))
   \<and> (case importCSV (exportData header_blocks) (\<lambda>n. ''u'') of
         Inl e \<Rightarrow> False
       | Inr bs' \<Rightarrow> map subtitle bs'
           = [''CodeType'', ''QRErrorCorrection'', ''BarcodeFormat'', ''SizeOverride'', ''Content''])"
  by code_simp

end
